theory Spec2Isabelle
  imports Complex_Main "HOL-Library.Word" "HOL-Library.AList"
begin

section \<open>JavaScript values\<close>

text \<open>
  The worker in \<^verbatim>\<open>src/index.ts\<close> handles loosely typed values throughout: the
  inference backend is \<^verbatim>\<open>any\<close>, its results are \<^verbatim>\<open>any\<close>, and the object decoded
  from the model's answer is spread into the extraction result as it is. The
  embedding therefore works on a datatype of JSON-like JavaScript values.

  \<^item> A string is the byte sequence of its UTF-8 encoding, so every character
    of the source's literals and of a backend's answer has a representation.
  \<^item> A number is the rational denoted by its decimal literal; rounding to a
    binary64 float, \<^verbatim>\<open>NaN\<close> and the infinities are not modelled.
  \<^item> An object is the list of its own enumerable properties in insertion
    order, each key once.
\<close>

datatype jsval =
    JUndefined
  | JNull
  | JBool bool
  | JNum rat
  | JStr string
  | JArr "jsval list"
  | JObj "(string \<times> jsval) list"

text \<open>A thrown value: an \<^verbatim>\<open>Error\<close> instance with its message, or anything else.\<close>

datatype js_exn = Error string | Thrown jsval

text \<open>\<^verbatim>\<open>err instanceof Error ? err.message : "Unknown error"\<close>\<close>

fun error_message :: "js_exn \<Rightarrow> string" where
  "error_message (Error m) = m"
| "error_message (Thrown v) = ''Unknown error''"

text \<open>ToBoolean, as used by \<^verbatim>\<open>!x\<close>, \<^verbatim>\<open>x || y\<close>, \<^verbatim>\<open>x && y\<close> and \<^verbatim>\<open>c ? a : b\<close>.\<close>

fun truthy :: "jsval \<Rightarrow> bool" where
  "truthy JUndefined = False"
| "truthy JNull = False"
| "truthy (JBool b) = b"
| "truthy (JNum r) = (r \<noteq> 0)"
| "truthy (JStr s) = (s \<noteq> [])"
| "truthy (JArr xs) = True"
| "truthy (JObj kvs) = True"

definition js_or :: "jsval \<Rightarrow> jsval \<Rightarrow> jsval" where
  "js_or a b = (if truthy a then a else b)"

text \<open>\<^verbatim>\<open>a ?? b\<close>\<close>

definition js_nullish :: "jsval \<Rightarrow> jsval \<Rightarrow> jsval" where
  "js_nullish a b = (if a = JUndefined \<or> a = JNull then b else a)"

text \<open>
  Member access \<^verbatim>\<open>v.k\<close> for the property names the worker reads
  (\<^verbatim>\<open>response\<close>, \<^verbatim>\<open>text\<close>, \<^verbatim>\<open>title\<close>, ...): none of them is an index,
  \<^verbatim>\<open>length\<close> or a prototype member, so a primitive or an array yields
  \<^verbatim>\<open>undefined\<close>, and \<^verbatim>\<open>undefined\<close> and \<^verbatim>\<open>null\<close> raise a TypeError.
\<close>

fun get_prop :: "jsval \<Rightarrow> string \<Rightarrow> js_exn + jsval" where
  "get_prop JUndefined k = Inl (Error (''Cannot read properties of undefined (reading '' @ k @ '')''))"
| "get_prop JNull k = Inl (Error (''Cannot read properties of null (reading '' @ k @ '')''))"
| "get_prop (JObj kvs) k = Inr (case map_of kvs k of None \<Rightarrow> JUndefined | Some v \<Rightarrow> v)"
| "get_prop v k = Inr JUndefined"

text \<open>Optional chaining \<^verbatim>\<open>v?.k\<close> never raises.\<close>

definition opt_prop :: "jsval \<Rightarrow> string \<Rightarrow> jsval" where
  "opt_prop v k = (case get_prop v k of Inl e \<Rightarrow> JUndefined | Inr x \<Rightarrow> x)"

text \<open>
  An object literal \<^verbatim>\<open>{ ...base, k1: v1, k2: v2 }\<close>: a key already present keeps
  its position and takes the new value, a new key is appended.
\<close>

definition obj_set :: "(string \<times> jsval) list \<Rightarrow> string \<times> jsval \<Rightarrow> (string \<times> jsval) list" where
  "obj_set kvs kv = AList.update (fst kv) (snd kv) kvs"

definition obj_sets :: "(string \<times> jsval) list \<Rightarrow> (string \<times> jsval) list \<Rightarrow> (string \<times> jsval) list" where
  "obj_sets kvs new = foldl obj_set kvs new"

text \<open>
  The own enumerable properties copied by a spread \<^verbatim>\<open>...v\<close> of an object. The
  worker spreads only the value decoded from a brace-delimited span, or its own
  fallback literal, and both are objects (lemma \<open>parse_response_object\<close>
  below), so the indexed properties of arrays and strings are left out.
\<close>

fun own_props :: "jsval \<Rightarrow> (string \<times> jsval) list" where
  "own_props (JObj kvs) = kvs"
| "own_props v = []"

section \<open>Library functions on strings\<close>

text \<open>
  \<^verbatim>\<open>String.prototype.toLowerCase\<close>, as far as the worker can observe it: the
  lowered title is only searched for two ASCII patterns. The letters A to Z are
  lowered; the two characters outside ASCII whose lower case contains an ASCII
  letter are lowered too (the Kelvin sign U+212A to \<^verbatim>\<open>k\<close>, and U+0130 to
  \<^verbatim>\<open>i\<close> followed by U+0307); every other byte is kept, which changes no
  ASCII byte of the result.
\<close>

definition lower_char :: "char \<Rightarrow> char" where
  "lower_char c =
     (let n = (of_char c :: nat)
      in if 65 \<le> n \<and> n \<le> 90 then char_of (n + 32) else c)"

fun toLowerCase :: "string \<Rightarrow> string" where
  "toLowerCase [] = []"
| "toLowerCase (c # cs) =
     (if c = CHR 0xE2 \<and> take 2 cs = [CHR 0x84, CHR 0xAA] then CHR ''k'' # toLowerCase (drop 2 cs)
      else if c = CHR 0xC4 \<and> take 1 cs = [CHR 0xB0] then CHR ''i'' # CHR 0xCC # CHR 0x87 # toLowerCase (drop 1 cs)
      else lower_char c # toLowerCase cs)"

fun starts_with :: "string \<Rightarrow> string \<Rightarrow> bool" where
  "starts_with s [] = True"
| "starts_with [] (p # ps) = False"
| "starts_with (c # cs) (p # ps) = (c = p \<and> starts_with cs ps)"

text \<open>\<^verbatim>\<open>String.prototype.includes\<close>\<close>

fun str_includes :: "string \<Rightarrow> string \<Rightarrow> bool" where
  "str_includes [] p = (p = [])"
| "str_includes (c # cs) p = (starts_with (c # cs) p \<or> str_includes cs p)"

text \<open>
  \<^verbatim>\<open>responseText.match(/\{[\s\S]*\}/)\<close>: the leftmost \<^verbatim>\<open>{\<close>, then greedily to the
  last \<^verbatim>\<open>}\<close> of the text. There is a match exactly when some \<^verbatim>\<open>}\<close> follows
  the first \<^verbatim>\<open>{\<close>.
\<close>

definition brace_span :: "string \<Rightarrow> string option" where
  "brace_span s =
     (let t = dropWhile (\<lambda>c. c \<noteq> CHR ''{'') s;
          u = rev (dropWhile (\<lambda>c. c \<noteq> CHR ''}'') (rev t))
      in if u = [] then None else Some u)"

section \<open>\<^verbatim>\<open>JSON.parse\<close>\<close>

text \<open>
  A recursive-descent decoder for the JSON grammar (ECMA-404), which is what
  \<^verbatim>\<open>JSON.parse\<close> accepts: objects, arrays, strings with escapes, numbers, the
  three literals, and the four whitespace characters. A duplicate key keeps its
  first position and takes the last value. An escape of four hex digits yields
  the UTF-8 bytes of that code unit (each half of a surrogate pair on its own).

  The recursion is bounded by fuel; \<open>Starved\<close> is the outcome of running out
  of it. Every call spends one unit and every second call consumes a character,
  so the fuel \<open>JSON_parse\<close> provides, twice the length of the text and one,
  is never used up (lemma \<open>JSON_parse_fuel_enough\<close> below).
\<close>

datatype 'a parsed = Starved | Reject | Accept 'a string

definition is_ws :: "char \<Rightarrow> bool" where
  "is_ws c = (c = CHR '' '' \<or> c = CHR 0x09 \<or> c = CHR 0x0A \<or> c = CHR 0x0D)"

definition skip_ws :: "string \<Rightarrow> string" where
  "skip_ws s = dropWhile is_ws s"

definition is_digit :: "char \<Rightarrow> bool" where
  "is_digit c = (48 \<le> (of_char c :: nat) \<and> (of_char c :: nat) \<le> 57)"

definition digit_val :: "char \<Rightarrow> nat" where
  "digit_val c = of_char c - 48"

definition digits_val :: "string \<Rightarrow> nat" where
  "digits_val ds = foldl (\<lambda>acc c. 10 * acc + digit_val c) 0 ds"

definition hex_val :: "char \<Rightarrow> nat option" where
  "hex_val c =
     (let n = (of_char c :: nat)
      in if 48 \<le> n \<and> n \<le> 57 then Some (n - 48)
         else if 65 \<le> n \<and> n \<le> 70 then Some (n - 55)
         else if 97 \<le> n \<and> n \<le> 102 then Some (n - 87)
         else None)"

text \<open>The character after a backslash, other than \<^verbatim>\<open>u\<close>.\<close>

definition unescape :: "char \<Rightarrow> char option" where
  "unescape c =
     (if c = CHR 0x22 then Some (CHR 0x22)
      else if c = CHR 0x5C then Some (CHR 0x5C)
      else if c = CHR ''/'' then Some (CHR ''/'')
      else if c = CHR ''b'' then Some (CHR 0x08)
      else if c = CHR ''f'' then Some (CHR 0x0C)
      else if c = CHR ''n'' then Some (CHR 0x0A)
      else if c = CHR ''r'' then Some (CHR 0x0D)
      else if c = CHR ''t'' then Some (CHR 0x09)
      else None)"

definition utf8_encode :: "nat \<Rightarrow> string" where
  "utf8_encode cp =
     (if cp < 128 then [char_of cp]
      else if cp < 2048 then [char_of (192 + cp div 64), char_of (128 + cp mod 64)]
      else [char_of (224 + cp div 4096), char_of (128 + (cp div 64) mod 64), char_of (128 + cp mod 64)])"

definition unicode_escape :: "string \<Rightarrow> string parsed" where
  "unicode_escape s =
     (case s of
        a # b # c # d # rest \<Rightarrow>
          (case (hex_val a, hex_val b, hex_val c, hex_val d) of
             (Some h3, Some h2, Some h1, Some h0) \<Rightarrow>
               Accept (utf8_encode (4096 * h3 + 256 * h2 + 16 * h1 + h0)) rest
           | _ \<Rightarrow> Reject)
      | _ \<Rightarrow> Reject)"

text \<open>The characters of a string literal, after its opening quote.\<close>

fun parse_chars :: "string \<Rightarrow> string parsed" where
  "parse_chars [] = Reject"
| "parse_chars (c # cs) =
     (if c = CHR 0x22 then Accept [] cs
      else if c = CHR 0x5C then
        (case cs of
           [] \<Rightarrow> Reject
         | e # r \<Rightarrow>
             if e = CHR ''u'' then
               (case unicode_escape r of
                  Accept x r' \<Rightarrow>
                    (if length r' < length r then
                       (case parse_chars r' of Accept xs r'' \<Rightarrow> Accept (x @ xs) r'' | other \<Rightarrow> other)
                     else Reject)
                | other \<Rightarrow> Reject)
             else
               (case unescape e of
                  None \<Rightarrow> Reject
                | Some x \<Rightarrow>
                    (case parse_chars r of Accept xs r' \<Rightarrow> Accept (x # xs) r' | other \<Rightarrow> other)))
      else if (of_char c :: nat) < 32 then Reject
      else (case parse_chars cs of Accept xs r \<Rightarrow> Accept (c # xs) r | other \<Rightarrow> other))"

text \<open>An optional fraction: its digits as a numerator and their count.\<close>

definition parse_frac :: "string \<Rightarrow> (nat \<times> nat) parsed" where
  "parse_frac s =
     (case s of
        [] \<Rightarrow> Accept (0, 0) []
      | c # cs \<Rightarrow>
          if c = CHR ''.'' then
            (let ds = takeWhile is_digit cs
             in if ds = [] then Reject
                else Accept (digits_val ds, length ds) (dropWhile is_digit cs))
          else Accept (0, 0) s)"

text \<open>An optional exponent.\<close>

definition parse_exp :: "string \<Rightarrow> int parsed" where
  "parse_exp s =
     (case s of
        [] \<Rightarrow> Accept 0 []
      | c # cs \<Rightarrow>
          if c = CHR ''e'' \<or> c = CHR ''E'' then
            (let neg = (case cs of [] \<Rightarrow> False | d # _ \<Rightarrow> d = CHR ''-'');
                 signed = (case cs of [] \<Rightarrow> False | d # _ \<Rightarrow> d = CHR ''-'' \<or> d = CHR ''+'');
                 t = (if signed then tl cs else cs);
                 ds = takeWhile is_digit t
             in if ds = [] then Reject
                else Accept (if neg then - int (digits_val ds) else int (digits_val ds))
                            (dropWhile is_digit t))
          else Accept 0 s)"

definition pow10 :: "int \<Rightarrow> rat" where
  "pow10 e = (if 0 \<le> e then 10 ^ nat e else 1 / 10 ^ nat (- e))"

definition parse_number :: "string \<Rightarrow> rat parsed" where
  "parse_number s =
     (let neg = (case s of [] \<Rightarrow> False | c # _ \<Rightarrow> c = CHR ''-'');
          t = (if neg then tl s else s);
          ds = takeWhile is_digit t
      in if ds = [] \<or> (1 < length ds \<and> hd ds = CHR ''0'') then Reject
         else
           (case parse_frac (dropWhile is_digit t) of
              Accept (num, k) r \<Rightarrow>
                (case parse_exp r of
                   Accept e r' \<Rightarrow>
                     Accept ((if neg then - 1 else 1)
                             * (of_nat (digits_val ds) + of_nat num / 10 ^ k) * pow10 e) r'
                 | other \<Rightarrow> Reject)
            | other \<Rightarrow> Reject))"

fun parse_value :: "nat \<Rightarrow> string \<Rightarrow> jsval parsed"
  and parse_elements :: "nat \<Rightarrow> jsval list \<Rightarrow> string \<Rightarrow> jsval parsed"
  and parse_members :: "nat \<Rightarrow> (string \<times> jsval) list \<Rightarrow> string \<Rightarrow> jsval parsed"
where
  "parse_value 0 s = Starved"
| "parse_value (Suc n) s =
     (case s of
        [] \<Rightarrow> Reject
      | c # cs \<Rightarrow>
          if c = CHR ''{'' then
            (case skip_ws cs of
               [] \<Rightarrow> Reject
             | d # r \<Rightarrow> if d = CHR ''}'' then Accept (JObj []) r else parse_members n [] (d # r))
          else if c = CHR ''['' then
            (case skip_ws cs of
               [] \<Rightarrow> Reject
             | d # r \<Rightarrow> if d = CHR '']'' then Accept (JArr []) r else parse_elements n [] (d # r))
          else if c = CHR 0x22 then
            (case parse_chars cs of Accept x r \<Rightarrow> Accept (JStr x) r | other \<Rightarrow> Reject)
          else if starts_with s ''true'' then Accept (JBool True) (drop 4 s)
          else if starts_with s ''false'' then Accept (JBool False) (drop 5 s)
          else if starts_with s ''null'' then Accept JNull (drop 4 s)
          else (case parse_number s of Accept x r \<Rightarrow> Accept (JNum x) r | other \<Rightarrow> Reject))"
| "parse_elements 0 acc s = Starved"
| "parse_elements (Suc n) acc s =
     (case parse_value n s of
        Accept v r \<Rightarrow>
          (case skip_ws r of
             [] \<Rightarrow> Reject
           | d # r' \<Rightarrow>
               if d = CHR '','' then parse_elements n (acc @ [v]) (skip_ws r')
               else if d = CHR '']'' then Accept (JArr (acc @ [v])) r'
               else Reject)
      | other \<Rightarrow> other)"
| "parse_members 0 acc s = Starved"
| "parse_members (Suc n) acc s =
     (case s of
        [] \<Rightarrow> Reject
      | q # cs \<Rightarrow>
          if q = CHR 0x22 then
            (case parse_chars cs of
               Accept k r \<Rightarrow>
                 (case skip_ws r of
                    [] \<Rightarrow> Reject
                  | d # r1 \<Rightarrow>
                      if d = CHR '':'' then
                        (case parse_value n (skip_ws r1) of
                           Accept v r2 \<Rightarrow>
                             (case skip_ws r2 of
                                [] \<Rightarrow> Reject
                              | e # r3 \<Rightarrow>
                                  if e = CHR '','' then parse_members n (obj_set acc (k, v)) (skip_ws r3)
                                  else if e = CHR ''}'' then Accept (JObj (obj_set acc (k, v))) r3
                                  else Reject)
                         | other \<Rightarrow> other)
                      else Reject)
             | other \<Rightarrow> Reject)
          else Reject)"

text \<open>\<^verbatim>\<open>JSON.parse(text)\<close>: \<open>None\<close> where it raises a SyntaxError.\<close>

definition JSON_parse :: "string \<Rightarrow> jsval option" where
  "JSON_parse s =
     (case parse_value (Suc (2 * length s)) (skip_ws s) of
        Accept v r \<Rightarrow> if skip_ws r = [] then Some v else None
      | other \<Rightarrow> None)"

section \<open>The inference backend\<close>

text \<open>
  \<^verbatim>\<open>c.env.AI\<close> is an external collaborator. The binding is absent (\<open>None\<close>) or
  answers every \<^verbatim>\<open>ai.run(model, input)\<close>: the promise resolves with some value,
  or the call fails with some thrown value (which covers a binding without a
  callable \<^verbatim>\<open>run\<close>). A resolved call also carries the milliseconds that
  elapsed between the two \<^verbatim>\<open>Date.now()\<close> readings taken around it. One handler
  run asks each model at most once, so a function of the request loses no
  behaviour.
\<close>

text \<open>
  A template literal: its fixed pieces and its substitutions. The conversion of
  a substituted value to text is left to the reader of the prompt.
\<close>

datatype tpart = Lit string | Subst jsval

datatype ai_input =
    Audio "8 word list"
  | Chat (messages: "(string \<times> tpart list) list") (max_tokens: nat) (temperature: rat)

datatype ai_outcome = Resolves jsval nat | Rejects js_exn

type_synonym ai_binding = "string \<Rightarrow> ai_input \<Rightarrow> ai_outcome"

text \<open>
  What a stage does besides computing its result: the calls it makes to the
  backend and the fixed sleeps (\<^verbatim>\<open>setTimeout\<close>, in milliseconds), in order.
  Console output is not recorded.
\<close>

datatype effect = AiRun string ai_input | Sleep nat

section \<open>Extraction stage: \<^verbatim>\<open>extractFeatureRequests\<close>\<close>

fun join_lines :: "string list \<Rightarrow> string" where
  "join_lines [] = []"
| "join_lines [l] = l"
| "join_lines (l # ls) = l @ CHR 0x0A # join_lines ls"

definition prompt_head :: string where
  \<open>prompt_head = join_lines
     [''You are a developer for first responders analyzing user feedback from audio transcriptions. Extract feature requests from the following transcription and format them as structured data.'',
      '''',
      ''TRANSCRIPTION:'',
      ''"'']\<close>

definition prompt_tail :: string where
  \<open>prompt_tail = join_lines
     [''"'',
      '''',
      ''Please analyze this transcription and extract any feature requests, suggestions, or product improvements mentioned. For each feature request, provide:'',
      ''1. A clear, concise title'',
      ''2. A detailed description of what the user is addressing'',
      ''3. Priority level (high/medium/low)'',
      ''4. Category (enhancement/bug-fix/new-feature/improvement)'',
      ''5. Confidence score (0.0-1.0)'',
      ''6. Potential recommendation: 1-2 possible solutions nicely formatted (could be bullet points)'',
      '''',
      ''Format your response as a JSON object with this structure:'',
      ''{'',
      ''  "requests": ['',
      ''    {'',
      ''      "id": "unique-id",'',
      ''      "title": "Feature request title",'',
      ''      "description": "Detailed description",'',
      ''      "priority": "high|medium|low",'',
      ''      "category": "enhancement|bug-fix|new-feature|improvement",'',
      ''      "confidence": 0.8,'',
      ''      "potentialRecommendation": "1-2 possible solutions nicely formatted (could be bullet points)"'',
      ''    }'',
      ''  ],'',
      ''  "summary": "Brief summary of all extracted requests"'',
      ''}'',
      '''',
      ''If no clear feature requests are found, return an empty requests array but still provide a summary of the transcription content.'']\<close>

definition system_instruction :: string where
  "system_instruction = ''You are a developer manager for first responders who extracts actionable feature requests from user feedback. Always respond with valid JSON.''"

definition extraction_model :: string where
  "extraction_model = ''@cf/mistral/mistral-7b-instruct-v0.2-lora''"

definition extraction_request :: "jsval \<Rightarrow> ai_input" where
  "extraction_request transcription =
     Chat [(''system'', [Lit system_instruction]),
           (''user'', [Lit prompt_head, Subst transcription, Lit prompt_tail])]
          900 (2 / 10)"

text \<open>The bullet character U+2022 of the recommendation texts.\<close>

definition bullet :: string where
  "bullet = [CHR 0xE2, CHR 0x80, CHR 0xA2]"

definition parse_error_record :: jsval where
  "parse_error_record = JObj
     [(''id'', JStr ''parse-error-1''),
      (''title'', JStr ''Unable to parse AI response''),
      (''description'', JStr ''The AI model returned a response that couldn't be parsed as structured feature requests.''),
      (''priority'', JStr ''low''),
      (''category'', JStr ''improvement''),
      (''confidence'', JNum (1 / 10)),
      (''potentialRecommendation'',
         JStr (bullet @ '' Check AI model configuration'' @ [CHR 0x0A]
               @ bullet @ '' Implement better error handling''))]"

definition parse_error_result :: jsval where
  "parse_error_result = JObj
     [(''requests'', JArr [parse_error_record]),
      (''summary'', JStr ''Error in processing AI response'')]"

definition fallback_record :: jsval where
  "fallback_record = JObj
     [(''id'', JStr ''fallback-1''),
      (''title'', JStr ''[Fallback] Feature extraction failed''),
      (''description'', JStr ''The AI model failed to process the transcription. This could be due to network issues, model unavailability, or configuration problems.''),
      (''priority'', JStr ''medium''),
      (''category'', JStr ''improvement''),
      (''confidence'', JNum (3 / 10)),
      (''potentialRecommendation'',
         JStr (bullet @ '' Verify Cloudflare Workers AI configuration'' @ [CHR 0x0A]
               @ bullet @ '' Check network connectivity and model availability''))]"

text \<open>\<^verbatim>\<open>result.response || result.text || ""\<close>\<close>

definition response_text :: "jsval \<Rightarrow> js_exn + jsval" where
  "response_text result =
     (case get_prop result ''response'' of
        Inl e \<Rightarrow> Inl e
      | Inr r \<Rightarrow>
          if truthy r then Inr r
          else (case get_prop result ''text'' of
                  Inl e \<Rightarrow> Inl e
                | Inr t \<Rightarrow> Inr (js_or t (JStr []))))"

text \<open>
  \<^verbatim>\<open>responseText.match(...)\<close>: only a string has the method, on any other value
  the call raises a TypeError.
\<close>

definition match_braces :: "jsval \<Rightarrow> js_exn + string option" where
  "match_braces v =
     (case v of
        JStr s \<Rightarrow> Inr (brace_span s)
      | _ \<Rightarrow> Inl (Error ''responseText.match is not a function''))"

text \<open>The body of the inner \<^verbatim>\<open>try\<close>: \<open>Inl\<close> is what its \<^verbatim>\<open>catch\<close> receives.\<close>

definition parse_response :: "jsval \<Rightarrow> js_exn + jsval" where
  "parse_response result =
     (case response_text result of
        Inl e \<Rightarrow> Inl e
      | Inr responseText \<Rightarrow>
          (case match_braces responseText of
             Inl e \<Rightarrow> Inl e
           | Inr None \<Rightarrow> Inl (Error ''No valid JSON found in response'')
           | Inr (Some jsonMatch) \<Rightarrow>
               (case JSON_parse jsonMatch of
                  None \<Rightarrow> Inl (Error ''Unexpected token in JSON'')
                | Some parsedResult \<Rightarrow> Inr parsedResult)))"

text \<open>The outer \<^verbatim>\<open>catch\<close>: sleep 300 ms, then the fixed fallback.\<close>

definition extraction_fallback :: "js_exn \<Rightarrow> jsval" where
  "extraction_fallback err = JObj
     [(''requests'', JArr [fallback_record]),
      (''summary'', JStr ''Feature extraction failed - using fallback response''),
      (''extractionTimeMs'', JNum 300),
      (''model'', JStr extraction_model),
      (''error'', JStr (error_message err))]"

definition extractFeatureRequests :: "jsval \<Rightarrow> ai_binding option \<Rightarrow> jsval \<times> effect list" where
  "extractFeatureRequests transcription ai =
     (case ai of
        None \<Rightarrow> (extraction_fallback (Error ''AI binding not available''), [Sleep 300])
      | Some run \<Rightarrow>
          (case run extraction_model (extraction_request transcription) of
             Rejects err \<Rightarrow>
               (extraction_fallback err,
                [AiRun extraction_model (extraction_request transcription), Sleep 300])
           | Resolves result processingMs \<Rightarrow>
               (let parsedResult =
                      (case parse_response result of
                         Inl parseError \<Rightarrow> parse_error_result
                       | Inr v \<Rightarrow> v)
                in (JObj (obj_sets (own_props parsedResult)
                           [(''extractionTimeMs'', JNum (of_nat processingMs)),
                            (''model'', JStr extraction_model),
                            (''originalTranscription'', transcription)]),
                    [AiRun extraction_model (extraction_request transcription)]))))"

section \<open>Transcription stage: \<^verbatim>\<open>processAudioWithAI\<close>\<close>

definition transcription_model :: string where
  "transcription_model = ''@cf/openai/whisper-tiny-en''"

definition mock_transcription :: string where
  "mock_transcription = ''[mock] This is a mock transcription. Workers AI call failed or is not configured yet.''"

definition mock_record :: jsval where
  "mock_record = JObj
     [(''id'', JStr ''mock-1''),
      (''title'', JStr ''[Mock] Feature Request Example''),
      (''description'', JStr ''This is a mock feature request extracted from the transcription.''),
      (''priority'', JStr ''medium''),
      (''category'', JStr ''enhancement''),
      (''confidence'', JNum (8 / 10)),
      (''potentialRecommendation'',
         JStr (bullet @ '' Implement user feedback collection system'' @ [CHR 0x0A]
               @ bullet @ '' Add feature request tracking dashboard''))]"

definition mock_feature_requests :: "js_exn \<Rightarrow> jsval" where
  "mock_feature_requests err = JObj
     [(''requests'', JArr [mock_record]),
      (''extractionTimeMs'', JNum 500),
      (''model'', JStr ''@cf/mistral/mistral-7b-instruct-v0.2-lora''),
      (''error'', JStr (error_message err))]"

text \<open>The \<^verbatim>\<open>catch\<close> of the transcription stage: sleep 500 ms, then the fixed mock.\<close>

definition transcription_fallback :: "js_exn \<Rightarrow> jsval" where
  "transcription_fallback err = JObj
     [(''transcription'', JStr mock_transcription),
      (''language'', JObj [(''detected'', JStr ''en''), (''confidence'', JNum (9 / 10))]),
      (''processingTimeMs'', JNum 500),
      (''model'', JStr transcription_model),
      (''featureRequests'', mock_feature_requests err),
      (''error'', JStr (error_message err))]"

text \<open>
  \<^verbatim>\<open>result?.language ? { detected: result.language,
     confidence: result?.language_confidence ?? undefined } : undefined\<close>
\<close>

definition detected_language :: "jsval \<Rightarrow> jsval" where
  "detected_language result =
     (if truthy (opt_prop result ''language'')
      then JObj [(''detected'', opt_prop result ''language''),
                 (''confidence'', js_nullish (opt_prop result ''language_confidence'') JUndefined)]
      else JUndefined)"

definition processAudioWithAI :: "8 word list \<Rightarrow> ai_binding option \<Rightarrow> jsval \<times> effect list" where
  "processAudioWithAI audioBuffer ai =
     (case ai of
        None \<Rightarrow> (transcription_fallback (Error ''AI binding not available''), [Sleep 500])
      | Some run \<Rightarrow>
          (case run transcription_model (Audio audioBuffer) of
             Rejects err \<Rightarrow>
               (transcription_fallback err, [AiRun transcription_model (Audio audioBuffer), Sleep 500])
           | Resolves result processingMs \<Rightarrow>
               (let transcriptionText =
                      js_or (opt_prop result ''text'') (js_or (opt_prop result ''transcription'') (JStr []));
                    extraction = extractFeatureRequests transcriptionText ai
                in (JObj [(''transcription'', transcriptionText),
                          (''language'', detected_language result),
                          (''processingTimeMs'', JNum (of_nat processingMs)),
                          (''model'', JStr transcription_model),
                          (''featureRequests'', fst extraction)],
                    AiRun transcription_model (Audio audioBuffer) # snd extraction))))"

section \<open>Storage collaborators\<close>

subsection \<open>Object store\<close>

text \<open>
  \<^verbatim>\<open>c.env.AUDIO_BUCKET\<close>: absent (or without a \<^verbatim>\<open>put\<close> method), or a bucket whose
  \<^verbatim>\<open>put\<close> either stores the object or fails with a thrown value.
\<close>

record r2_object =
  r2_key :: string
  r2_body :: "8 word list"
  r2_contentType :: string

record r2_bucket =
  r2_objects :: "r2_object list"
  put_failure :: "js_exn option"

definition r2_put :: "r2_object \<Rightarrow> r2_bucket \<Rightarrow> js_exn + r2_bucket" where
  "r2_put obj b =
     (case put_failure b of
        Some e \<Rightarrow> Inl e
      | None \<Rightarrow> Inr (b\<lparr>r2_objects := filter (\<lambda>x. r2_key x \<noteq> r2_key obj) (r2_objects b) @ [obj]\<rparr>))"

subsection \<open>Relational store\<close>

text \<open>
  A value bound to a statement parameter: SQL \<^verbatim>\<open>NULL\<close>, a JavaScript value, or
  the text \<^verbatim>\<open>JSON.stringify\<close> yields for a value (kept symbolic).
\<close>

datatype bound = Null | Val jsval | JsonText jsval

text \<open>
  The rows of the two tables, with the columns of the worker's
  \<^verbatim>\<open>CREATE TABLE\<close> statements; \<^verbatim>\<open>created_at\<close> is filled by the engine's clock
  and left out.
\<close>

record audio_file_row =
  af_id :: string
  af_file_name :: string
  af_file_size :: nat
  af_file_type :: string
  af_r2_key :: "string option"

record feature_request_row =
  fr_id :: string
  fr_audio_file_id :: string
  fr_title :: bound
  fr_description :: bound
  fr_priority :: bound
  fr_category :: bound
  fr_confidence :: bound
  fr_potential_recommendation :: bound
  fr_summary :: bound

text \<open>
  \<^verbatim>\<open>c.env.audio2features\<close>. A table is \<open>None\<close> until it is created. \<open>faults\<close> is
  the schedule of failures that come from outside the statement (connectivity,
  quota, a primary-key collision, a foreign-key check, a type the engine does
  not bind): the next statement run fails when the head of the schedule is
  \<open>True\<close>; an exhausted schedule means no further such failure.
\<close>

record d1 =
  audio_files :: "audio_file_row list option"
  feature_requests :: "feature_request_row list option"
  faults :: "bool list"

datatype statement =
    CreateAudioFiles
  | CreateFeatureRequests
  | InsertAudioFile audio_file_row
  | InsertFeatureRequest feature_request_row

text \<open>
  What a statement does when the engine runs it; \<open>None\<close> when the engine rejects
  it. \<^verbatim>\<open>CREATE TABLE IF NOT EXISTS\<close> keeps an existing table. An insert needs its
  table, and \<^verbatim>\<open>feature_requests\<close> declares \<^verbatim>\<open>title TEXT NOT NULL\<close> and
  \<^verbatim>\<open>description TEXT NOT NULL\<close> (\<^verbatim>\<open>ensureFeatureRequestsTable\<close>), so a row with
  \<^verbatim>\<open>NULL\<close> in either column is rejected. The identifier columns are never
  \<^verbatim>\<open>NULL\<close> here.
\<close>

fun apply_statement :: "statement \<Rightarrow> d1 \<Rightarrow> d1 option" where
  "apply_statement CreateAudioFiles db =
     Some (db\<lparr>audio_files := Some (case audio_files db of None \<Rightarrow> [] | Some rows \<Rightarrow> rows)\<rparr>)"
| "apply_statement CreateFeatureRequests db =
     Some (db\<lparr>feature_requests := Some (case feature_requests db of None \<Rightarrow> [] | Some rows \<Rightarrow> rows)\<rparr>)"
| "apply_statement (InsertAudioFile row) db =
     (case audio_files db of
        None \<Rightarrow> None
      | Some rows \<Rightarrow> Some (db\<lparr>audio_files := Some (rows @ [row])\<rparr>))"
| "apply_statement (InsertFeatureRequest row) db =
     (case feature_requests db of
        None \<Rightarrow> None
      | Some rows \<Rightarrow>
          if fr_title row = Null \<or> fr_description row = Null then None
          else Some (db\<lparr>feature_requests := Some (rows @ [row])\<rparr>))"

text \<open>
  \<^verbatim>\<open>await db.prepare(...).bind(...).run()\<close>: the flag tells whether the promise
  resolved; when it is \<open>False\<close> the \<^verbatim>\<open>await\<close> raises.
\<close>

definition run_statement :: "statement \<Rightarrow> d1 \<Rightarrow> bool \<times> d1" where
  "run_statement st db =
     (case faults db of
        True # rest \<Rightarrow> (False, db\<lparr>faults := rest\<rparr>)
      | _ \<Rightarrow>
          (let db' = db\<lparr>faults := tl (faults db)\<rparr>
           in case apply_statement st db' of
                None \<Rightarrow> (False, db')
              | Some db'' \<Rightarrow> (True, db'')))"

section \<open>The HTTP handlers\<close>

record response =
  status :: nat
  body :: jsval

text \<open>
  The bindings of \<^verbatim>\<open>c.env\<close>, and the platform's \<^verbatim>\<open>crypto.randomUUID()\<close> as a
  sequence of draws with the number of draws made so far.
\<close>

record env =
  AI :: "ai_binding option"
  AUDIO_BUCKET :: "r2_bucket option"
  audio2features :: "d1 option"
  uuids :: "nat \<Rightarrow> string"
  drawn :: nat

subsection \<open>\<^verbatim>\<open>POST /extract-features\<close>\<close>

text \<open>
  The request is its body text; \<^verbatim>\<open>c.req.json()\<close> decodes it as
  \<^verbatim>\<open>JSON.parse\<close> does and raises on a malformed body.
\<close>

definition server_error :: "string \<Rightarrow> js_exn \<Rightarrow> response" where
  "server_error what err =
     \<lparr>status = 500, body = JObj [(''error'', JStr what), (''details'', JStr (error_message err))]\<rparr>"

definition bad_request :: "string \<Rightarrow> response" where
  "bad_request what = \<lparr>status = 400, body = JObj [(''error'', JStr what)]\<rparr>"

definition extract_features_handler :: "string \<Rightarrow> env \<Rightarrow> response \<times> effect list" where
  "extract_features_handler request_body e =
     (case JSON_parse request_body of
        None \<Rightarrow> (server_error ''Failed to extract feature requests'' (Error ''Unexpected token in JSON''), [])
      | Some b \<Rightarrow>
          (case get_prop b ''transcription'' of
             Inl err \<Rightarrow> (server_error ''Failed to extract feature requests'' err, [])
           | Inr transcription \<Rightarrow>
               if \<not> truthy transcription then (bad_request ''No transcription provided'', [])
               else
                 (let extraction = extractFeatureRequests transcription (AI e)
                  in (\<lparr>status = 200,
                       body = JObj [(''success'', JBool True),
                                    (''featureRequests'', fst extraction),
                                    (''message'', JStr ''Feature requests extracted successfully'')]\<rparr>,
                      snd extraction))))"

subsection \<open>\<^verbatim>\<open>POST /upload\<close>\<close>

text \<open>
  The uploaded \<^verbatim>\<open>File\<close>; its \<^verbatim>\<open>size\<close> is the number of its bytes.
\<close>

record audio_file =
  file_name :: string
  file_type :: string
  file_lastModified :: nat
  file_bytes :: "8 word list"

definition file_size :: "audio_file \<Rightarrow> nat" where
  "file_size f = length (file_bytes f)"

text \<open>
  \<^verbatim>\<open>formData.get("audio")\<close> is \<^verbatim>\<open>null\<close>, a text field or a file;
  \<^verbatim>\<open>c.req.formData()\<close> itself raises on a body that is no form.
\<close>

datatype form_value = NoValue | TextValue string | FileValue audio_file

datatype upload_request = Unreadable js_exn | Form form_value

definition maxSize :: nat where
  "maxSize = 25 * 1024 * 1024"

text \<open>
  \<^verbatim>\<open>audioFile.name.replace(/[^a-zA-Z0-9._-]/g, "_")\<close> replaces every UTF-16 code
  unit outside the class. On the UTF-8 bytes: an ASCII byte outside the class
  and the lead byte of a two- or three-byte character give one underscore, the
  lead byte of a four-byte character (two code units) gives two, and a
  continuation byte gives none.
\<close>

definition safe_char :: "char \<Rightarrow> string" where
  "safe_char c =
     (let n = (of_char c :: nat)
      in if (48 \<le> n \<and> n \<le> 57) \<or> (65 \<le> n \<and> n \<le> 90) \<or> (97 \<le> n \<and> n \<le> 122)
            \<or> c = CHR ''.'' \<or> c = CHR ''_'' \<or> c = CHR ''-'' then [c]
         else if 128 \<le> n \<and> n < 192 then []
         else if 240 \<le> n then ''__''
         else ''_'')"

definition safeName :: "string \<Rightarrow> string" where
  "safeName name = concat (map safe_char name)"

definition r2Key :: "string \<Rightarrow> string \<Rightarrow> string" where
  "r2Key fileId name = ''uploads/'' @ fileId @ ''-'' @ safeName name"

text \<open>The first \<^verbatim>\<open>try\<close> block; the flag is \<^verbatim>\<open>r2Stored\<close>.\<close>

definition store_audio :: "r2_bucket option \<Rightarrow> r2_object \<Rightarrow> bool \<times> r2_bucket option" where
  "store_audio r2 obj =
     (case r2 of
        None \<Rightarrow> (False, None)
      | Some b \<Rightarrow>
          (case r2_put obj b of
             Inl e \<Rightarrow> (False, Some b)
           | Inr b' \<Rightarrow> (True, Some b')))"

text \<open>Awaited statements in sequence: the first failure raises and skips the rest.\<close>

fun run_statements :: "statement list \<Rightarrow> d1 \<Rightarrow> bool \<times> d1" where
  "run_statements [] db = (True, db)"
| "run_statements (st # sts) db =
     (let r = run_statement st db
      in if fst r then run_statements sts (snd r) else (False, snd r))"

text \<open>The second \<^verbatim>\<open>try\<close> block; the flag is \<^verbatim>\<open>d1Inserted\<close>.\<close>

definition store_metadata :: "d1 option \<Rightarrow> audio_file_row \<Rightarrow> bool \<times> d1 option" where
  "store_metadata db row =
     (case db of
        None \<Rightarrow> (False, None)
      | Some d \<Rightarrow>
          (let r = run_statements [CreateAudioFiles, CreateFeatureRequests, InsertAudioFile row] d
           in (fst r, Some (snd r))))"

definition audioInfo :: "audio_file \<Rightarrow> string \<Rightarrow> bool \<Rightarrow> jsval" where
  "audioInfo f fileId r2Stored = JObj
     [(''fileName'', JStr (file_name f)),
      (''fileSize'', JNum (of_nat (file_size f))),
      (''fileType'', JStr (file_type f)),
      (''lastModified'', JNum (of_nat (file_lastModified f))),
      (''duration'', JStr ''Unknown''),
      (''sampleRate'', JStr ''Unknown''),
      (''channels'', JStr ''Unknown''),
      (''fileId'', JStr fileId),
      (''r2Key'', if r2Stored then JStr (r2Key fileId (file_name f)) else JUndefined)]"

text \<open>
  The callback of \<^verbatim>\<open>requests.filter\<close>:
  \<^verbatim>\<open>req.title && !req.title.toLowerCase().includes('parse error')
     && !req.title.toLowerCase().includes('fallback')\<close>.
  Reading \<^verbatim>\<open>title\<close> off \<^verbatim>\<open>null\<close> raises, and so does calling
  \<^verbatim>\<open>toLowerCase\<close> on a truthy title that is no string.
\<close>

definition is_actionable :: "jsval \<Rightarrow> js_exn + bool" where
  "is_actionable req =
     (case get_prop req ''title'' of
        Inl e \<Rightarrow> Inl e
      | Inr title \<Rightarrow>
          if \<not> truthy title then Inr False
          else (case title of
                  JStr t \<Rightarrow>
                    Inr (\<not> str_includes (toLowerCase t) ''parse error''
                         \<and> \<not> str_includes (toLowerCase t) ''fallback'')
                | _ \<Rightarrow> Inl (Error ''req.title.toLowerCase is not a function'')))"

fun actionableRequests :: "jsval list \<Rightarrow> js_exn + jsval list" where
  "actionableRequests [] = Inr []"
| "actionableRequests (req # rest) =
     (case is_actionable req of
        Inl e \<Rightarrow> Inl e
      | Inr keep \<Rightarrow>
          (case actionableRequests rest of
             Inl e \<Rightarrow> Inl e
           | Inr kept \<Rightarrow> Inr (if keep then req # kept else kept)))"

text \<open>\<^verbatim>\<open>x || null\<close> and \<^verbatim>\<open>x ?? null\<close> as bound parameters.\<close>

definition or_null :: "jsval \<Rightarrow> bound" where
  "or_null v = (if truthy v then Val v else Null)"

definition nullish_null :: "jsval \<Rightarrow> bound" where
  "nullish_null v = (if v = JUndefined \<or> v = JNull then Null else Val v)"

text \<open>
  \<^verbatim>\<open>typeof r === 'string' ? r : (Array.isArray(r) ? JSON.stringify(r) : null)\<close>
\<close>

definition recommendation :: "jsval \<Rightarrow> bound" where
  "recommendation r = (case r of JStr s \<Rightarrow> Val r | JArr xs \<Rightarrow> JsonText r | _ \<Rightarrow> Null)"

text \<open>
  The parameters bound for one actionable record:
  \<^verbatim>\<open>.bind(crypto.randomUUID(), fileId, req.title || '', req.description || '',
     req.priority || null, req.category || null, req.confidence ?? null, ..., summary)\<close>.
  All reads are off the same \<^verbatim>\<open>req\<close>, so they raise together, exactly when
  \<^verbatim>\<open>req\<close> is \<^verbatim>\<open>null\<close> or \<^verbatim>\<open>undefined\<close>; otherwise each read is what
  \<open>opt_prop\<close> gives.
\<close>

definition bound_row :: "string \<Rightarrow> string \<Rightarrow> bound \<Rightarrow> jsval \<Rightarrow> feature_request_row" where
  "bound_row rowId fileId summary req =
     \<lparr>fr_id = rowId,
      fr_audio_file_id = fileId,
      fr_title = Val (js_or (opt_prop req ''title'') (JStr [])),
      fr_description = Val (js_or (opt_prop req ''description'') (JStr [])),
      fr_priority = or_null (opt_prop req ''priority''),
      fr_category = or_null (opt_prop req ''category''),
      fr_confidence = nullish_null (opt_prop req ''confidence''),
      fr_potential_recommendation = recommendation (opt_prop req ''potentialRecommendation''),
      fr_summary = summary\<rparr>"

definition request_row :: "string \<Rightarrow> string \<Rightarrow> bound \<Rightarrow> jsval \<Rightarrow> js_exn + feature_request_row" where
  "request_row rowId fileId summary req =
     (case get_prop req ''title'' of
        Inl e \<Rightarrow> Inl e
      | Inr title \<Rightarrow> Inr (bound_row rowId fileId summary req))"

text \<open>
  The placeholder statement, whose six content columns are the literal
  \<^verbatim>\<open>NULL\<close>.
\<close>

definition placeholder_row :: "string \<Rightarrow> string \<Rightarrow> bound \<Rightarrow> feature_request_row" where
  "placeholder_row rowId fileId summary =
     \<lparr>fr_id = rowId, fr_audio_file_id = fileId,
      fr_title = Null, fr_description = Null, fr_priority = Null, fr_category = Null,
      fr_confidence = Null, fr_potential_recommendation = Null,
      fr_summary = summary\<rparr>"

text \<open>
  \<^verbatim>\<open>for (const req of actionableRequests) { await db.prepare(...).bind(
     crypto.randomUUID(), fileId, ...).run(); }\<close>:
  one draw and one insert per record, stopping at the first failure. The result
  is the number of draws made and the store.
\<close>

fun insert_requests :: "string \<Rightarrow> bound \<Rightarrow> jsval list \<Rightarrow> (nat \<Rightarrow> string) \<Rightarrow> nat \<Rightarrow> d1 \<Rightarrow> nat \<times> d1" where
  "insert_requests fileId summary [] ids k db = (k, db)"
| "insert_requests fileId summary (req # rest) ids k db =
     (case request_row (ids k) fileId summary req of
        Inl e \<Rightarrow> (Suc k, db)
      | Inr row \<Rightarrow>
          (let r = run_statement (InsertFeatureRequest row) db
           in if fst r then insert_requests fileId summary rest ids (Suc k) (snd r)
              else (Suc k, snd r)))"

text \<open>
  The third \<^verbatim>\<open>try\<close> block. The reads \<^verbatim>\<open>aiFeatures.featureRequests\<close> and, behind
  the truthiness guard, \<^verbatim>\<open>.requests\<close> and \<^verbatim>\<open>.summary\<close> cannot raise:
  \<^verbatim>\<open>aiFeatures\<close> is an object.
\<close>

definition store_feature_requests ::
    "d1 option \<Rightarrow> jsval \<Rightarrow> string \<Rightarrow> (nat \<Rightarrow> string) \<Rightarrow> nat \<Rightarrow> nat \<times> d1 option" where
  "store_feature_requests db aiFeatures fileId ids k =
     (case db of
        None \<Rightarrow> (k, None)
      | Some d \<Rightarrow>
          (let featureRequests = opt_prop aiFeatures ''featureRequests''
           in if \<not> truthy featureRequests then (k, Some d)
              else
                (case opt_prop featureRequests ''requests'' of
                   JArr requests \<Rightarrow>
                     (let r = run_statement CreateFeatureRequests d
                      in if \<not> fst r then (k, Some (snd r))
                         else
                           (let summary = or_null (opt_prop featureRequests ''summary'')
                            in case actionableRequests requests of
                                 Inl e \<Rightarrow> (k, Some (snd r))
                               | Inr actionable \<Rightarrow>
                                   if actionable \<noteq> [] then
                                     (let w = insert_requests fileId summary actionable ids k (snd r)
                                      in (fst w, Some (snd w)))
                                   else
                                     (Suc k,
                                      Some (snd (run_statement
                                        (InsertFeatureRequest (placeholder_row (ids k) fileId summary))
                                        (snd r))))))
                 | _ \<Rightarrow> (k, Some d))))"

text \<open>The part of the handler after the three validation checks.\<close>

definition process_upload :: "audio_file \<Rightarrow> env \<Rightarrow> response \<times> env \<times> effect list" where
  "process_upload f e =
     (let fileId = uuids e (drawn e);
          stored = store_audio (AUDIO_BUCKET e)
                     \<lparr>r2_key = r2Key fileId (file_name f), r2_body = file_bytes f,
                      r2_contentType = file_type f\<rparr>;
          inserted = store_metadata (audio2features e)
                       \<lparr>af_id = fileId, af_file_name = file_name f, af_file_size = file_size f,
                        af_file_type = file_type f,
                        af_r2_key = (if fst stored then Some (r2Key fileId (file_name f)) else None)\<rparr>;
          ai = processAudioWithAI (file_bytes f) (AI e);
          persisted = store_feature_requests (snd inserted) (fst ai) fileId (uuids e) (Suc (drawn e))
      in (\<lparr>status = 200,
           body = JObj [(''success'', JBool True),
                        (''audioInfo'', audioInfo f fileId (fst stored)),
                        (''aiFeatures'', fst ai),
                        (''message'', JStr ''Audio processed successfully'')]\<rparr>,
          e\<lparr>AUDIO_BUCKET := snd stored, audio2features := snd persisted, drawn := fst persisted\<rparr>,
          snd ai))"

definition upload_handler :: "upload_request \<Rightarrow> env \<Rightarrow> response \<times> env \<times> effect list" where
  "upload_handler request e =
     (case request of
        Unreadable err \<Rightarrow> (server_error ''Failed to process audio file'' err, e, [])
      | Form NoValue \<Rightarrow> (bad_request ''No audio file provided'', e, [])
      | Form (TextValue t) \<Rightarrow>
          if t = [] then (bad_request ''No audio file provided'', e, [])
          else (server_error ''Failed to process audio file''
                  (Error ''Cannot read properties of undefined (reading startsWith)''), e, [])
      | Form (FileValue f) \<Rightarrow>
          if \<not> starts_with (file_type f) ''audio/'' then (bad_request ''File must be an audio file'', e, [])
          else if maxSize < file_size f then (bad_request ''File size must be less than 25MB'', e, [])
          else process_upload f e)"

section \<open>The specification's vocabulary\<close>

text \<open>
  The definitions of this section follow the words of the specification, not
  the code; the theorems below relate the two.

  A feature-request record as the data model types it: an object whose
  \<^verbatim>\<open>title\<close> is an optional string (absent, \<^verbatim>\<open>null\<close>, or a string).
\<close>

definition is_record :: "jsval \<Rightarrow> bool" where
  "is_record r =
     (case r of
        JObj kvs \<Rightarrow>
          (case map_of kvs ''title'' of
             None \<Rightarrow> True
           | Some JNull \<Rightarrow> True
           | Some (JStr t) \<Rightarrow> True
           | Some v \<Rightarrow> False)
      | _ \<Rightarrow> False)"

text \<open>
  A record is actionable iff its title is present, non-empty, and its lowercase
  form contains neither \<^verbatim>\<open>parse error\<close> nor \<^verbatim>\<open>fallback\<close>.
\<close>

definition actionable :: "jsval \<Rightarrow> bool" where
  "actionable r =
     (case opt_prop r ''title'' of
        JStr t \<Rightarrow>
          t \<noteq> [] \<and> \<not> str_includes (toLowerCase t) ''parse error''
          \<and> \<not> str_includes (toLowerCase t) ''fallback''
      | _ \<Rightarrow> False)"

text \<open>
  The rows the persistence filter is to write for a list of actionable records:
  one row each, in order, the \<open>i\<close>-th with the \<open>i\<close>-th identifier drawn from
  \<open>k\<close> on, the parent audio-file identifier and the shared summary.
\<close>

fun named_rows :: "(nat \<Rightarrow> string) \<Rightarrow> nat \<Rightarrow> string \<Rightarrow> bound \<Rightarrow> jsval list \<Rightarrow> feature_request_row list" where
  "named_rows ids k fileId summary [] = []"
| "named_rows ids k fileId summary (req # rest) =
     bound_row (ids k) fileId summary req # named_rows ids (Suc k) fileId summary rest"

text \<open>The relational store works: no statement fails from outside.\<close>

definition no_faults :: "d1 \<Rightarrow> bool" where
  "no_faults db = (True \<notin> set (faults db))"

text \<open>The rows of a table, none if it does not exist.\<close>

definition rows_of :: "'a list option \<Rightarrow> 'a list" where
  "rows_of t = (case t of None \<Rightarrow> [] | Some rows \<Rightarrow> rows)"

text \<open>An upload that passes the handler's three checks.\<close>

definition valid_upload :: "audio_file \<Rightarrow> bool" where
  "valid_upload f = (starts_with (file_type f) ''audio/'' \<and> file_size f \<le> maxSize)"

section \<open>Example inputs\<close>

text \<open>Concrete inputs on which the theorems below are instantiated.\<close>

definition demo_file :: audio_file where
  "demo_file = \<lparr>file_name = ''field note 1.mp3'', file_type = ''audio/mpeg'',
                 file_lastModified = 1024, file_bytes = [82, 73, 70, 70]\<rparr>"

text \<open>An identifier source whose draws are pairwise different.\<close>

definition demo_ids :: "nat \<Rightarrow> string" where
  "demo_ids n = ''id-'' @ replicate n (CHR ''x'')"

text \<open>An empty relational store that works, and one whose every statement fails.\<close>

definition demo_store :: d1 where
  "demo_store = \<lparr>audio_files = None, feature_requests = None, faults = []\<rparr>"

definition broken_store :: d1 where
  "broken_store = \<lparr>audio_files = None, feature_requests = None, faults = replicate 8 True\<rparr>"

definition demo_bucket :: r2_bucket where
  "demo_bucket = \<lparr>r2_objects = [], put_failure = None\<rparr>"

definition demo_env :: "ai_binding option \<Rightarrow> r2_bucket option \<Rightarrow> d1 option \<Rightarrow> env" where
  "demo_env ai bucket db =
     \<lparr>AI = ai, AUDIO_BUCKET = bucket, audio2features = db, uuids = demo_ids, drawn = 0\<rparr>"

text \<open>
  A backend that transcribes, and answers the extraction prompt with the given
  text.
\<close>

definition demo_ai :: "string \<Rightarrow> ai_binding" where
  "demo_ai answer model input =
     (if model = transcription_model then Resolves (JObj [(''text'', JStr ''please add a dark mode'')]) 120
      else Resolves (JObj [(''response'', JStr answer)]) 800)"


section \<open>Properties of the decoder\<close>

text \<open>
  Every accepted parse consumes input, the fuel of \<open>JSON_parse\<close> is never
  used up, and what \<open>parse_response\<close> decodes is always an object.
\<close>

lemma skip_ws_length: "length (skip_ws s) \<le> length s"
  by (simp add: skip_ws_def length_dropWhile_le)

lemma skip_ws_Cons_length: "skip_ws s = d # r \<Longrightarrow> length r < length s"
  using skip_ws_length[of s] by simp

lemma parse_chars_shorter: "parse_chars s = Accept x r \<Longrightarrow> length r < length s"
proof (induction s arbitrary: x r rule: parse_chars.induct)
  case 1
  then show ?case by simp
next
  case (2 c cs)
  show ?case
  proof (cases "c = CHR 0x22")
    case True
    with "2.prems" show ?thesis by simp
  next
    case quote: False
    show ?thesis
    proof (cases "c = CHR 0x5C")
      case True
      then obtain e t where cs: "cs = e # t"
        using "2.prems" quote by (cases cs) simp_all
      show ?thesis
      proof (cases "e = CHR ''u''")
        case u: True
        then obtain y t' where ue: "unicode_escape t = Accept y t'" and lt: "length t' < length t"
          using "2.prems" quote True cs
          by (auto split: parsed.splits if_splits)
        then obtain xs where "parse_chars t' = Accept xs r"
          using "2.prems" quote True cs u by (auto split: parsed.splits)
        then have "length r < length t'"
          using "2.IH"(1)[OF quote True cs u ue lt] by simp
        with lt cs show ?thesis by simp
      next
        case nu: False
        then obtain y where un: "unescape e = Some y"
          using "2.prems" quote True cs by (auto split: option.splits)
        then obtain xs where "parse_chars t = Accept xs r"
          using "2.prems" quote True cs nu by (auto split: parsed.splits)
        then have "length r < length t"
          using "2.IH"(2)[OF quote True cs nu un] by simp
        with cs show ?thesis by simp
      qed
    next
      case False
      then obtain xs where ctl: "\<not> (of_char c :: nat) < 32" and "parse_chars cs = Accept xs r"
        using "2.prems" quote by (auto split: parsed.splits if_splits)
      then have "length r < length cs"
        using "2.IH"(3)[OF quote False] by simp
      then show ?thesis by simp
    qed
  qed
qed

lemma parse_frac_shorter: "parse_frac s = Accept x r \<Longrightarrow> length r \<le> length s"
  by (auto simp: parse_frac_def Let_def split: list.splits if_splits
      intro: le_trans[OF length_dropWhile_le])

lemma parse_exp_shorter: "parse_exp s = Accept x r \<Longrightarrow> length r \<le> length s"
proof -
  assume a: "parse_exp s = Accept x r"
  show ?thesis
  proof (cases s)
    case Nil
    with a show ?thesis by (simp add: parse_exp_def)
  next
    case (Cons c cs)
    show ?thesis
    proof (cases "c = CHR ''e'' \<or> c = CHR ''E''")
      case False
      with a Cons show ?thesis by (simp add: parse_exp_def)
    next
      case True
      define t where "t = (if (case cs of [] \<Rightarrow> False | d # _ \<Rightarrow> d = CHR ''-'' \<or> d = CHR ''+'') then tl cs else cs)"
      have "r = dropWhile is_digit t"
        using a Cons True unfolding parse_exp_def t_def
        by (simp add: Let_def split: if_splits)
      moreover have "length t \<le> length cs"
        by (simp add: t_def)
      ultimately show ?thesis
        using Cons length_dropWhile_le[of is_digit t] by simp
    qed
  qed
qed

lemma parse_number_shorter: "parse_number s = Accept x r \<Longrightarrow> length r < length s"
proof -
  assume a: "parse_number s = Accept x r"
  define t where "t = (if (case s of [] \<Rightarrow> False | c # _ \<Rightarrow> c = CHR ''-'') then tl s else s)"
  have ne: "takeWhile is_digit t \<noteq> []"
    using a unfolding parse_number_def t_def by (auto simp: Let_def split: if_splits)
  obtain num k r1 where f: "parse_frac (dropWhile is_digit t) = Accept (num, k) r1"
    using a ne unfolding parse_number_def t_def
    by (auto simp: Let_def split: if_splits parsed.splits prod.splits)
  obtain e where e: "parse_exp r1 = Accept e r"
    using a ne f unfolding parse_number_def t_def
    by (auto simp: Let_def split: if_splits parsed.splits prod.splits)
  have "length (dropWhile is_digit t) < length t"
    using ne by (metis length_dropWhile_le takeWhile_dropWhile_id append_self_conv2 length_append
        add_diff_cancel_right' diff_is_0_eq' le_neq_implies_less length_0_conv)
  moreover have "length t \<le> length s"
    by (simp add: t_def)
  ultimately show ?thesis
    using parse_frac_shorter[OF f] parse_exp_shorter[OF e] by simp
qed


lemma parse_shorter:
  "(parse_value n s = Accept v r \<longrightarrow> length r < length s)
   \<and> (parse_elements n acc s = Accept v r \<longrightarrow> length r < length s)
   \<and> (parse_members n kvs s = Accept v r \<longrightarrow> length r < length s)"
proof (induction n arbitrary: s v r acc kvs)
  case 0
  show ?case by simp
next
  case (Suc n)
  have val: "length r < length s" if a: "parse_value (Suc n) s = Accept v r"
  proof (cases s)
    case Nil
    with a show ?thesis by simp
  next
    case (Cons c cs)
    consider (obj) "c = CHR ''{''" | (arr) "c \<noteq> CHR ''{''" "c = CHR ''[''"
      | (str) "c \<noteq> CHR ''{''" "c \<noteq> CHR ''[''" "c = CHR 0x22"
      | (other) "c \<noteq> CHR ''{''" "c \<noteq> CHR ''[''" "c \<noteq> CHR 0x22"
      by blast
    then show ?thesis
    proof cases
      case obj
      then obtain d t where sk: "skip_ws cs = d # t"
        using a Cons by (cases "skip_ws cs") simp_all
      show ?thesis
      proof (cases "d = CHR ''}''")
        case True
        with a Cons obj sk have "r = t" by simp
        with skip_ws_Cons_length[OF sk] Cons show ?thesis by simp
      next
        case False
        with a Cons obj sk have "parse_members n [] (d # t) = Accept v r" by simp
        with Suc.IH have "length r < length (d # t)" by blast
        with skip_ws_length[of cs] sk Cons show ?thesis by simp
      qed
    next
      case arr
      then obtain d t where sk: "skip_ws cs = d # t"
        using a Cons by (cases "skip_ws cs") simp_all
      show ?thesis
      proof (cases "d = CHR '']''")
        case True
        with a Cons arr sk have "r = t" by simp
        with skip_ws_Cons_length[OF sk] Cons show ?thesis by simp
      next
        case False
        with a Cons arr sk have "parse_elements n [] (d # t) = Accept v r" by simp
        with Suc.IH have "length r < length (d # t)" by blast
        with skip_ws_length[of cs] sk Cons show ?thesis by simp
      qed
    next
      case str
      then obtain x where "parse_chars cs = Accept x r"
        using a Cons by (auto split: parsed.splits)
      from parse_chars_shorter[OF this] Cons show ?thesis by simp
    next
      case other
      then show ?thesis
        using a Cons parse_number_shorter[of s _ r]
        by (auto split: if_splits parsed.splits)
    qed
  qed
  have els: "length r < length s" if a: "parse_elements (Suc n) acc s = Accept v r"
  proof -
    obtain x t where pv: "parse_value n s = Accept x t"
      using a by (auto split: parsed.splits)
    with Suc.IH have lt: "length t < length s" by blast
    obtain d t' where sk: "skip_ws t = d # t'"
      using a pv by (cases "skip_ws t") simp_all
    show ?thesis
    proof (cases "d = CHR '',''")
      case True
      with a pv sk have "parse_elements n (acc @ [x]) (skip_ws t') = Accept v r" by simp
      with Suc.IH have "length r < length (skip_ws t')" by blast
      with skip_ws_length[of t'] skip_ws_length[of t] sk lt show ?thesis by simp
    next
      case False
      with a pv sk have "r = t'"
        by (auto split: if_splits)
      with skip_ws_Cons_length[OF sk] lt show ?thesis by simp
    qed
  qed
  have mem: "length r < length s" if a: "parse_members (Suc n) kvs s = Accept v r"
  proof -
    obtain cs where s: "s = CHR 0x22 # cs"
      using a by (cases s) (auto split: if_splits)
    obtain k t where pc: "parse_chars cs = Accept k t"
      using a s by (auto split: parsed.splits)
    obtain t1 where sk1: "skip_ws t = CHR '':'' # t1"
      using a s pc by (cases "skip_ws t") (auto split: if_splits)
    obtain x t2 where pv: "parse_value n (skip_ws t1) = Accept x t2"
      using a s pc sk1 by (auto split: parsed.splits)
    obtain e t3 where sk3: "skip_ws t2 = e # t3"
      using a s pc sk1 pv by (cases "skip_ws t2") simp_all
    have l1: "length t < length cs"
      using parse_chars_shorter[OF pc] .
    have l2: "length t1 < length t"
      using skip_ws_Cons_length[OF sk1] .
    have l3: "length t2 < length (skip_ws t1)"
      using pv Suc.IH by blast
    have l4: "length t3 < length t2"
      using skip_ws_Cons_length[OF sk3] .
    show ?thesis
    proof (cases "e = CHR '',''")
      case True
      with a s pc sk1 pv sk3 have "parse_members n (obj_set kvs (k, x)) (skip_ws t3) = Accept v r" by simp
      with Suc.IH have "length r < length (skip_ws t3)" by blast
      with skip_ws_length[of t3] skip_ws_length[of t1] l1 l2 l3 l4 s show ?thesis by simp
    next
      case False
      with a s pc sk1 pv sk3 have "r = t3"
        by (auto split: if_splits)
      with skip_ws_length[of t1] l1 l2 l3 l4 s show ?thesis by simp
    qed
  qed
  show ?case
    using val els mem by blast
qed

lemma unicode_escape_fed: "unicode_escape s \<noteq> Starved"
  by (simp add: unicode_escape_def split: list.splits option.splits prod.splits)

lemma parse_chars_fed: "parse_chars s \<noteq> Starved"
proof (induction s rule: parse_chars.induct)
  case 1
  show ?case by simp
next
  case (2 c cs)
  show ?case
  proof (cases "c = CHR 0x22")
    case True
    then show ?thesis by simp
  next
    case quote: False
    show ?thesis
    proof (cases "c = CHR 0x5C")
      case True
      show ?thesis
      proof (cases cs)
        case Nil
        with quote True show ?thesis by simp
      next
        case (Cons e t)
        show ?thesis
        proof (cases "e = CHR ''u''")
          case u: True
          show ?thesis
          proof (cases "unicode_escape t")
            case Starved
            with unicode_escape_fed show ?thesis by blast
          next
            case Reject
            with quote True Cons u show ?thesis by simp
          next
            case (Accept y t')
            show ?thesis
            proof (cases "length t' < length t")
              case lt: True
              have "parse_chars t' \<noteq> Starved"
                using "2.IH"(1)[OF quote True Cons u Accept lt] .
              with quote True Cons u Accept lt show ?thesis
                by (cases "parse_chars t'") simp_all
            next
              case False
              with quote True Cons u Accept show ?thesis by simp
            qed
          qed
        next
          case nu: False
          show ?thesis
          proof (cases "unescape e")
            case None
            with quote True Cons nu show ?thesis by simp
          next
            case (Some y)
            have "parse_chars t \<noteq> Starved"
              using "2.IH"(2)[OF quote True Cons nu Some] .
            with quote True Cons nu Some show ?thesis
              by (cases "parse_chars t") simp_all
          qed
        qed
      qed
    next
      case False
      show ?thesis
      proof (cases "(of_char c :: nat) < 32")
        case True
        with quote False show ?thesis by simp
      next
        case ctl: False
        have "parse_chars cs \<noteq> Starved"
          using "2.IH"(3)[OF quote False ctl] .
        with quote False ctl show ?thesis
          by (cases "parse_chars cs") simp_all
      qed
    qed
  qed
qed

lemma parse_fed:
  "(2 * length s < n \<longrightarrow> parse_value n s \<noteq> Starved)
   \<and> (2 * length s + 1 < n \<longrightarrow> parse_elements n acc s \<noteq> Starved)
   \<and> (2 * length s + 1 < n \<longrightarrow> parse_members n kvs s \<noteq> Starved)"
proof (induction n arbitrary: s acc kvs)
  case 0
  show ?case by simp
next
  case (Suc n)
  have val: "parse_value (Suc n) s \<noteq> Starved" if fuel: "2 * length s < Suc n"
  proof (cases s)
    case Nil
    then show ?thesis by simp
  next
    case (Cons c cs)
    have sub: "2 * length t + 1 < n" if "skip_ws cs = t" for t
      using that skip_ws_length[of cs] fuel Cons by auto
    show ?thesis
    proof (cases "skip_ws cs")
      case Nil
      with Cons show ?thesis
        by (auto split: parsed.splits)
    next
      case sk: (Cons d t)
      have "parse_members n [] (d # t) \<noteq> Starved" "parse_elements n [] (d # t) \<noteq> Starved"
        using Suc.IH sub[OF sk] by blast+
      with Cons sk show ?thesis
        by (auto split: parsed.splits)
    qed
  qed
  have els: "parse_elements (Suc n) acc s \<noteq> Starved" if fuel: "2 * length s + 1 < Suc n"
  proof (cases "parse_value n s")
    case Starved
    moreover have "parse_value n s \<noteq> Starved"
      using Suc.IH fuel by auto
    ultimately show ?thesis by simp
  next
    case Reject
    then show ?thesis by simp
  next
    case (Accept x t)
    have lt: "length t < length s"
      using parse_shorter[of n s x t] Accept by blast
    show ?thesis
    proof (cases "skip_ws t")
      case Nil
      with Accept show ?thesis by simp
    next
      case (Cons d t')
      have "2 * length (skip_ws t') + 1 < n"
        using skip_ws_length[of t'] skip_ws_Cons_length[OF Cons] lt fuel by linarith
      then have "parse_elements n (acc @ [x]) (skip_ws t') \<noteq> Starved"
        using Suc.IH by blast
      with Accept Cons show ?thesis by simp
    qed
  qed
  have mem: "parse_members (Suc n) kvs s \<noteq> Starved" if fuel: "2 * length s + 1 < Suc n"
  proof (cases s)
    case Nil
    then show ?thesis by simp
  next
    case (Cons q cs)
    show ?thesis
    proof (cases "parse_chars cs")
      case Starved
      with parse_chars_fed show ?thesis by blast
    next
      case Reject
      with Cons show ?thesis by simp
    next
      case (Accept k t)
      have l1: "length t < length cs"
        using parse_chars_shorter[OF Accept] .
      show ?thesis
      proof (cases "skip_ws t")
        case Nil
        with Cons Accept show ?thesis by simp
      next
        case sk1: (Cons d t1)
        have l2: "length t1 < length t"
          using skip_ws_Cons_length[OF sk1] .
        have f1: "2 * length (skip_ws t1) < n"
          using skip_ws_length[of t1] l1 l2 fuel Cons by simp
        show ?thesis
        proof (cases "parse_value n (skip_ws t1)")
          case Starved
          with Suc.IH f1 show ?thesis by blast
        next
          case Reject
          with Cons Accept sk1 show ?thesis by simp
        next
          case pv: (Accept x t2)
          have l3: "length t2 < length (skip_ws t1)"
            using parse_shorter[of n "skip_ws t1" x t2] pv by blast
          show ?thesis
          proof (cases "skip_ws t2")
            case Nil
            with Cons Accept sk1 pv show ?thesis by simp
          next
            case sk3: (Cons e t3)
            have "2 * length (skip_ws t3) + 1 < n"
              using skip_ws_length[of t3] skip_ws_Cons_length[OF sk3] skip_ws_length[of t1]
                l1 l2 l3 fuel Cons by simp
            then have "parse_members n (obj_set kvs (k, x)) (skip_ws t3) \<noteq> Starved"
              using Suc.IH by blast
            with Cons Accept sk1 pv sk3 show ?thesis by simp
          qed
        qed
      qed
    qed
  qed
  show ?case
    using val els mem by blast
qed

lemma JSON_parse_fuel_enough: "parse_value (Suc (2 * length s)) (skip_ws s) \<noteq> Starved"
proof -
  have "2 * length (skip_ws s) < Suc (2 * length s)"
    using skip_ws_length[of s] by simp
  then show ?thesis
    using parse_fed by blast
qed

lemma parse_members_object: "parse_members n kvs s = Accept v r \<Longrightarrow> \<exists>kvs'. v = JObj kvs'"
proof (induction n arbitrary: kvs s)
  case 0
  then show ?case by simp
next
  case (Suc n)
  then show ?case
    by (auto split: list.splits if_splits parsed.splits)
qed

lemma brace_span_starts:
  assumes "brace_span s = Some u"
  shows "\<exists>cs. u = CHR ''{'' # cs"
proof -
  define t where "t = dropWhile (\<lambda>c. c \<noteq> CHR ''{'') s"
  have u: "u = rev (dropWhile (\<lambda>c. c \<noteq> CHR ''}'') (rev t))" and ne: "u \<noteq> []"
    using assms by (auto simp: brace_span_def t_def Let_def split: if_splits)
  have "rev t = takeWhile (\<lambda>c. c \<noteq> CHR ''}'') (rev t) @ dropWhile (\<lambda>c. c \<noteq> CHR ''}'') (rev t)"
    by simp
  then have "t = u @ rev (takeWhile (\<lambda>c. c \<noteq> CHR ''}'') (rev t))"
    unfolding u by (metis rev_append rev_rev_ident)
  then have hu: "hd u = hd t" and tne: "t \<noteq> []"
    using ne by (metis hd_append2, metis append_is_Nil_conv)
  have "hd t = CHR ''{''"
    using tne hd_dropWhile[of "\<lambda>c. c \<noteq> CHR ''{''" s] by (simp add: t_def)
  with hu show ?thesis
    using ne by (cases u) simp_all
qed

lemma parse_response_object:
  assumes "parse_response result = Inr v"
  shows "\<exists>kvs. v = JObj kvs"
proof -
  obtain body_text u where u: "brace_span body_text = Some u" and j: "JSON_parse u = Some v"
    using assms
    by (auto simp: parse_response_def match_braces_def split: sum.splits jsval.splits option.splits)
  obtain cs where cs: "u = CHR ''{'' # cs"
    using brace_span_starts[OF u] by blast
  have sk: "skip_ws u = u"
    by (simp add: cs skip_ws_def is_ws_def)
  have "\<exists>r. parse_value (Suc (2 * length u)) u = Accept v r"
    using j unfolding JSON_parse_def sk by (auto split: parsed.splits if_splits)
  then obtain r where pv: "parse_value (Suc (2 * length u)) u = Accept v r"
    by blast
  define m where "m = 2 * length u"
  have "parse_value (Suc m) u = Accept v r"
    using pv by (simp only: m_def)
  then have "parse_value (Suc m) (CHR ''{'' # cs) = Accept v r"
    by (simp only: cs)
  then have unfolded: "(case skip_ws cs of
                [] \<Rightarrow> Reject
              | d # t \<Rightarrow> if d = CHR ''}'' then Accept (JObj []) t else parse_members m [] (d # t))
             = Accept v r"
    by simp
  show ?thesis
  proof (cases "skip_ws cs")
    case Nil
    with unfolded show ?thesis by simp
  next
    case (Cons d t)
    with unfolded
    have branch: "(if d = CHR ''}'' then Accept (JObj []) t else parse_members m [] (d # t)) = Accept v r"
      by simp
    show ?thesis
    proof (cases "d = CHR ''}''")
      case True
      with branch have "v = JObj []" by simp
      then show ?thesis by blast
    next
      case False
      with branch have "parse_members m [] (d # t) = Accept v r" by simp
      then show ?thesis by (rule parse_members_object)
    qed
  qed
qed
section \<open>Properties of the extraction stage\<close>

subsection \<open>Auxiliary facts\<close>


lemma map_of_obj_set: "map_of (obj_set kvs kv) = (map_of kvs)(fst kv \<mapsto> snd kv)"
  by (simp add: obj_set_def update_conv')

lemma map_of_obj_sets: "map_of (obj_sets kvs new) = map_of kvs ++ map_of (rev new)"
  unfolding obj_sets_def
proof (induction new arbitrary: kvs)
  case Nil
  show ?case by simp
next
  case (Cons kv new)
  have "map_of (foldl obj_set (obj_set kvs kv) new) = map_of (obj_set kvs kv) ++ map_of (rev new)"
    by (rule Cons.IH)
  also have "\<dots> = map_of kvs ++ map_of (rev (kv # new))"
    by (cases kv) (simp add: map_of_obj_set map_add_def fun_eq_iff split: option.splits)
  finally show ?case by simp
qed

lemma extraction_success_shape:
  assumes "run extraction_model (extraction_request transcription) = Resolves result ms"
  shows "fst (extractFeatureRequests transcription (Some run)) =
     JObj (obj_sets (own_props (case parse_response result of Inl e \<Rightarrow> parse_error_result | Inr v \<Rightarrow> v))
            [(''extractionTimeMs'', JNum (of_nat ms)),
             (''model'', JStr extraction_model),
             (''originalTranscription'', transcription)])"
  using assms by (simp add: extractFeatureRequests_def Let_def)

lemma extraction_success_requests:
  assumes "run extraction_model (extraction_request transcription) = Resolves result ms"
  shows "opt_prop (fst (extractFeatureRequests transcription (Some run))) ''requests'' =
         opt_prop (JObj (own_props (case parse_response result of Inl e \<Rightarrow> parse_error_result | Inr v \<Rightarrow> v))) ''requests''"
  using assms by (simp add: extraction_success_shape opt_prop_def map_of_obj_sets map_add_def)

lemma parse_failure:
  assumes "response_text result = Inr (JStr text)"
    and "brace_span text = None \<or> (\<exists>span. brace_span text = Some span \<and> JSON_parse span = None)"
  shows "\<exists>e. parse_response result = Inl e"
  using assms by (auto simp: parse_response_def match_braces_def)

lemma opt_prop_own_props: "opt_prop (JObj (own_props v)) k = opt_prop v k"
  by (cases v) (simp_all add: opt_prop_def)

subsection \<open>Parse failure\<close>

text \<open>
  Claim C3. When the backend call resolves and the response text has no
  brace-delimited span, or its span does not decode as JSON, the extraction
  stage returns exactly one record, with id \<^verbatim>\<open>parse-error-1\<close>, title
  \<^verbatim>\<open>Unable to parse AI response\<close>, priority \<^verbatim>\<open>low\<close>, category
  \<^verbatim>\<open>improvement\<close> and confidence 0.1, together with the summary
  \<^verbatim>\<open>Error in processing AI response\<close>; nothing is raised, and the
  extract-from-text endpoint answers 200 with \<^verbatim>\<open>success: true\<close> around that
  result.
\<close>

theorem parse_failure_gives_parse_error_record:
  assumes run: "run extraction_model (extraction_request transcription) = Resolves result ms"
    and rtext: "response_text result = Inr (JStr text)"
    and bad: "brace_span text = None \<or> (\<exists>span. brace_span text = Some span \<and> JSON_parse span = None)"
  shows "extractFeatureRequests transcription (Some run) =
           (JObj [(''requests'', JArr [parse_error_record]),
                  (''summary'', JStr ''Error in processing AI response''),
                  (''extractionTimeMs'', JNum (of_nat ms)),
                  (''model'', JStr extraction_model),
                  (''originalTranscription'', transcription)],
            [AiRun extraction_model (extraction_request transcription)])
         \<and> opt_prop parse_error_record ''id'' = JStr ''parse-error-1''
         \<and> opt_prop parse_error_record ''title'' = JStr ''Unable to parse AI response''
         \<and> opt_prop parse_error_record ''priority'' = JStr ''low''
         \<and> opt_prop parse_error_record ''category'' = JStr ''improvement''
         \<and> opt_prop parse_error_record ''confidence'' = JNum (1 / 10)
         \<and> (JSON_parse request_body = Some b \<and> get_prop b ''transcription'' = Inr transcription
               \<and> truthy transcription \<and> AI (e::env) = Some run \<longrightarrow>
               fst (extract_features_handler request_body e) =
                 \<lparr>status = 200,
                  body = JObj [(''success'', JBool True),
                               (''featureRequests'', fst (extractFeatureRequests transcription (Some run))),
                               (''message'', JStr ''Feature requests extracted successfully'')]\<rparr>)"
proof -
  obtain perr where perr: "parse_response result = Inl perr"
    using parse_failure[OF rtext bad] by blast
  have stage: "extractFeatureRequests transcription (Some run) =
           (JObj [(''requests'', JArr [parse_error_record]),
                  (''summary'', JStr ''Error in processing AI response''),
                  (''extractionTimeMs'', JNum (of_nat ms)),
                  (''model'', JStr extraction_model),
                  (''originalTranscription'', transcription)],
            [AiRun extraction_model (extraction_request transcription)])"
    using run perr
    by (simp add: extractFeatureRequests_def Let_def parse_error_result_def obj_sets_def obj_set_def)
  have fields: "opt_prop parse_error_record ''id'' = JStr ''parse-error-1''"
    "opt_prop parse_error_record ''title'' = JStr ''Unable to parse AI response''"
    "opt_prop parse_error_record ''priority'' = JStr ''low''"
    "opt_prop parse_error_record ''category'' = JStr ''improvement''"
    "opt_prop parse_error_record ''confidence'' = JNum (1 / 10)"
    by (simp_all add: parse_error_record_def opt_prop_def)
  have handler: "fst (extract_features_handler request_body e) =
                 \<lparr>status = 200,
                  body = JObj [(''success'', JBool True),
                               (''featureRequests'', fst (extractFeatureRequests transcription (Some run))),
                               (''message'', JStr ''Feature requests extracted successfully'')]\<rparr>"
    if "JSON_parse request_body = Some b" "get_prop b ''transcription'' = Inr transcription"
       "truthy transcription" "AI e = Some run"
    using that by (simp add: extract_features_handler_def Let_def)
  show ?thesis
    using stage fields handler by blast
qed

text \<open>
  The theorem at a response cut off inside its JSON: the span from the first
  \<^verbatim>\<open>{\<close> to the last \<^verbatim>\<open>}\<close> does not decode.
\<close>

theorem parse_failure_witness:
  \<open>response_text (JObj [(''response'', JStr ''Here you go: {"requests": [} Thanks'')])
      = Inr (JStr ''Here you go: {"requests": [} Thanks'')
   \<and> brace_span ''Here you go: {"requests": [} Thanks'' = Some ''{"requests": [}''
   \<and> JSON_parse ''{"requests": [}'' = None
   \<and> fst (extractFeatureRequests (JStr ''hello'')
        (Some (\<lambda>m i. Resolves (JObj [(''response'', JStr ''Here you go: {"requests": [} Thanks'')]) 7)))
      = JObj [(''requests'', JArr [parse_error_record]),
              (''summary'', JStr ''Error in processing AI response''),
              (''extractionTimeMs'', JNum 7),
              (''model'', JStr extraction_model),
              (''originalTranscription'', JStr ''hello'')]
   \<and> status (fst (extract_features_handler ''{"transcription":"hello"}''
        \<lparr>AI = Some (\<lambda>m i. Resolves (JObj [(''response'', JStr ''Here you go: {"requests": [} Thanks'')]) 7),
         AUDIO_BUCKET = None, audio2features = None, uuids = (\<lambda>n. []), drawn = 0\<rparr>)) = 200\<close>
proof -
  let ?result = \<open>JObj [(''response'', JStr ''Here you go: {"requests": [} Thanks'')]\<close>
  let ?run = "\<lambda>(m::string) (i::ai_input). Resolves ?result 7"
  let ?e = "\<lparr>AI = Some ?run, AUDIO_BUCKET = None, audio2features = None, uuids = (\<lambda>n. []), drawn = 0\<rparr>"
  have h1: "?run extraction_model (extraction_request (JStr ''hello'')) = Resolves ?result 7"
    by simp
  have h2: \<open>response_text ?result = Inr (JStr ''Here you go: {"requests": [} Thanks'')\<close>
    by (simp add: response_text_def)
  have h3: \<open>brace_span ''Here you go: {"requests": [} Thanks'' = Some ''{"requests": [}''\<close>
    by (simp add: brace_span_def)
  have h4: \<open>JSON_parse ''{"requests": [}'' = None\<close>
    by code_simp
  have h5: \<open>JSON_parse ''{"transcription":"hello"}'' = Some (JObj [(''transcription'', JStr ''hello'')])\<close>
    by code_simp
  have bad: \<open>brace_span ''Here you go: {"requests": [} Thanks'' = None
      \<or> (\<exists>span. brace_span ''Here you go: {"requests": [} Thanks'' = Some span \<and> JSON_parse span = None)\<close>
    using h3 h4 by simp
  note inst = parse_failure_gives_parse_error_record[where run = ?run and transcription = "JStr ''hello''"
      and result = ?result and ms = 7 and e = ?e and b = "JObj [(''transcription'', JStr ''hello'')]"
      and request_body = \<open>''{"transcription":"hello"}''\<close>, OF h1 h2 bad]
  have \<open>status (fst (extract_features_handler ''{"transcription":"hello"}'' ?e)) = 200\<close>
    using inst h5 by simp
  then show ?thesis
    using inst h2 h3 h4 by simp
qed

subsection \<open>Backend invocation failure\<close>

text \<open>
  Claim C4 says that the error detail of the fallback result is never empty.
  The stage copies the message of the thrown \<^verbatim>\<open>Error\<close>, whatever it is: a
  backend that fails with an \<^verbatim>\<open>Error\<close> of empty message yields an empty detail.
\<close>

theorem empty_error_message_counterexample:
  "fst (extractFeatureRequests (JStr ''hello'') (Some (\<lambda>m i. Rejects (Error []))))
     = JObj [(''requests'', JArr [fallback_record]),
             (''summary'', JStr ''Feature extraction failed - using fallback response''),
             (''extractionTimeMs'', JNum 300),
             (''model'', JStr extraction_model),
             (''error'', JStr [])]"
  by (simp add: extractFeatureRequests_def extraction_fallback_def)

text \<open>
  Claim C4, amended. When the backend handle is absent or the call fails, the
  stage sleeps 300 ms and returns exactly one record, with id
  \<^verbatim>\<open>fallback-1\<close>, title \<^verbatim>\<open>[Fallback] Feature extraction failed\<close>, priority
  \<^verbatim>\<open>medium\<close>, category \<^verbatim>\<open>improvement\<close> and confidence 0.3, the summary
  \<^verbatim>\<open>Feature extraction failed - using fallback response\<close>, and an error detail
  that is always present: the message of the thrown \<^verbatim>\<open>Error\<close> (which is
  \<^verbatim>\<open>AI binding not available\<close> for an absent handle), or \<^verbatim>\<open>Unknown error\<close>
  when the thrown value is no \<^verbatim>\<open>Error\<close>.
\<close>

theorem invocation_failure_gives_fallback_record:
  assumes "(ai = None \<and> err = Error ''AI binding not available'')
           \<or> (\<exists>run. ai = Some run \<and> run extraction_model (extraction_request transcription) = Rejects err)"
  shows "fst (extractFeatureRequests transcription ai) =
           JObj [(''requests'', JArr [fallback_record]),
                 (''summary'', JStr ''Feature extraction failed - using fallback response''),
                 (''extractionTimeMs'', JNum 300),
                 (''model'', JStr extraction_model),
                 (''error'', JStr (error_message err))]
         \<and> last (snd (extractFeatureRequests transcription ai)) = Sleep 300
         \<and> opt_prop fallback_record ''id'' = JStr ''fallback-1''
         \<and> opt_prop fallback_record ''title'' = JStr ''[Fallback] Feature extraction failed''
         \<and> opt_prop fallback_record ''priority'' = JStr ''medium''
         \<and> opt_prop fallback_record ''category'' = JStr ''improvement''
         \<and> opt_prop fallback_record ''confidence'' = JNum (3 / 10)
         \<and> (ai = None \<longrightarrow> error_message err = ''AI binding not available'')
         \<and> (\<forall>m. err = Error m \<longrightarrow> error_message err = m)
         \<and> (\<forall>v. err = Thrown v \<longrightarrow> error_message err = ''Unknown error'')"
proof -
  have fields: "opt_prop fallback_record ''id'' = JStr ''fallback-1''"
    "opt_prop fallback_record ''title'' = JStr ''[Fallback] Feature extraction failed''"
    "opt_prop fallback_record ''priority'' = JStr ''medium''"
    "opt_prop fallback_record ''category'' = JStr ''improvement''"
    "opt_prop fallback_record ''confidence'' = JNum (3 / 10)"
    by (simp_all add: fallback_record_def opt_prop_def)
  have stage: "extractFeatureRequests transcription ai =
      (extraction_fallback err,
       (case ai of None \<Rightarrow> [] | Some run \<Rightarrow> [AiRun extraction_model (extraction_request transcription)])
       @ [Sleep 300])"
    using assms by (auto simp: extractFeatureRequests_def)
  show ?thesis
    using assms fields by (auto simp: stage extraction_fallback_def)
qed

theorem invocation_failure_witness:
  "fst (extractFeatureRequests (JStr ''hello'') (Some (\<lambda>m i. Rejects (Error ''5007: No such model'')))) =
           JObj [(''requests'', JArr [fallback_record]),
                 (''summary'', JStr ''Feature extraction failed - using fallback response''),
                 (''extractionTimeMs'', JNum 300),
                 (''model'', JStr extraction_model),
                 (''error'', JStr ''5007: No such model'')]
   \<and> last (snd (extractFeatureRequests (JStr ''hello'') (Some (\<lambda>m i. Rejects (Error ''5007: No such model''))))) = Sleep 300
   \<and> opt_prop (fst (extractFeatureRequests (JStr ''hello'') None)) ''error'' = JStr ''AI binding not available''"
proof -
  let ?run = "\<lambda>(m::string) (i::ai_input). Rejects (Error ''5007: No such model'')"
  have h: "(Some ?run = None \<and> Error ''5007: No such model'' = Error ''AI binding not available'')
           \<or> (\<exists>run. Some ?run = Some run \<and> run extraction_model (extraction_request (JStr ''hello'')) = Rejects (Error ''5007: No such model''))"
    by simp
  have h': "((None :: ai_binding option) = None \<and> Error ''AI binding not available'' = Error ''AI binding not available'')
           \<or> (\<exists>run. None = Some run \<and> run extraction_model (extraction_request (JStr ''hello'')) = Rejects (Error ''AI binding not available''))"
    by simp
  show ?thesis
    using invocation_failure_gives_fallback_record[OF h] invocation_failure_gives_fallback_record[OF h']
    by (simp add: opt_prop_def)
qed

subsection \<open>Parse success\<close>

text \<open>
  Claim C7. When the span from the first \<^verbatim>\<open>{\<close> to the last \<^verbatim>\<open>}\<close> of the
  response decodes as JSON and the decoded object has a \<^verbatim>\<open>requests\<close> array,
  the result's \<^verbatim>\<open>requests\<close> is that very array: the same length and the same
  items, so each item keeps its \<^verbatim>\<open>title\<close>, \<^verbatim>\<open>priority\<close> and \<^verbatim>\<open>category\<close>;
  the timing, the model identifier and the transcription are merged in beside
  it.
\<close>

theorem valid_json_requests_verbatim:
  assumes "run extraction_model (extraction_request transcription) = Resolves result ms"
    and "response_text result = Inr (JStr txt)"
    and "brace_span txt = Some jsonMatch"
    and "JSON_parse jsonMatch = Some parsed"
    and "opt_prop parsed ''requests'' = JArr items"
  shows "opt_prop (fst (extractFeatureRequests transcription (Some run))) ''requests'' = JArr items
         \<and> opt_prop (fst (extractFeatureRequests transcription (Some run))) ''extractionTimeMs'' = JNum (of_nat ms)
         \<and> opt_prop (fst (extractFeatureRequests transcription (Some run))) ''model'' = JStr extraction_model
         \<and> opt_prop (fst (extractFeatureRequests transcription (Some run))) ''originalTranscription'' = transcription"
proof -
  have p: "parse_response result = Inr parsed"
    using assms by (simp add: parse_response_def match_braces_def)
  obtain kvs where kvs: "parsed = JObj kvs"
    using assms(5) by (cases parsed) (simp_all add: opt_prop_def)
  show ?thesis
    using assms(5)
    by (simp add: extraction_success_shape[where run = run, OF assms(1)] p kvs opt_prop_def
        map_of_obj_sets map_add_def)
qed

theorem valid_json_witness:
  \<open>fst (extractFeatureRequests (JStr ''add dark mode'')
     (Some (\<lambda>m i. Resolves (JObj [(''response'',
        JStr ''Sure! {"requests":[{"title":"Add dark mode","priority":"low","category":"enhancement"},{"title":"Export {CSV}"}],"summary":"s"} Done.'')]) 41)))
   = JObj [(''requests'', JArr [JObj [(''title'', JStr ''Add dark mode''), (''priority'', JStr ''low''),
                                      (''category'', JStr ''enhancement'')],
                                JObj [(''title'', JStr ''Export {CSV}'')]]),
           (''summary'', JStr ''s''),
           (''extractionTimeMs'', JNum 41),
           (''model'', JStr extraction_model),
           (''originalTranscription'', JStr ''add dark mode'')]\<close>
proof -
  let ?txt = \<open>''Sure! {"requests":[{"title":"Add dark mode","priority":"low","category":"enhancement"},{"title":"Export {CSV}"}],"summary":"s"} Done.''\<close>
  let ?span = \<open>''{"requests":[{"title":"Add dark mode","priority":"low","category":"enhancement"},{"title":"Export {CSV}"}],"summary":"s"}''\<close>
  let ?items = "[JObj [(''title'', JStr ''Add dark mode''), (''priority'', JStr ''low''),
                                      (''category'', JStr ''enhancement'')],
                                JObj [(''title'', JStr ''Export {CSV}'')]]"
  let ?parsed = "JObj [(''requests'', JArr ?items), (''summary'', JStr ''s'')]"
  let ?result = "JObj [(''response'', JStr ?txt)]"
  let ?run = "\<lambda>(m::string) (i::ai_input). Resolves ?result 41"
  have h1: "?run extraction_model (extraction_request (JStr ''add dark mode'')) = Resolves ?result 41"
    by simp
  have h2: "response_text ?result = Inr (JStr ?txt)"
    by (simp add: response_text_def)
  have h3: "brace_span ?txt = Some ?span"
    by (simp add: brace_span_def)
  have h4: "JSON_parse ?span = Some ?parsed"
    by code_simp
  have h5: "opt_prop ?parsed ''requests'' = JArr ?items"
    by (simp add: opt_prop_def)
  have p: "parse_response ?result = Inr ?parsed"
    using h2 h3 h4 by (simp add: parse_response_def match_braces_def)
  note inst = valid_json_requests_verbatim[where run = ?run, OF h1 h2 h3 h4 h5]
  have "fst (extractFeatureRequests (JStr ''add dark mode'') (Some ?run)) =
     JObj [(''requests'', JArr ?items), (''summary'', JStr ''s''),
           (''extractionTimeMs'', JNum 41),
           (''model'', JStr extraction_model),
           (''originalTranscription'', JStr ''add dark mode'')]"
    using inst p by (simp add: extraction_success_shape[where run = ?run, OF h1] obj_sets_def obj_set_def)
  then show ?thesis by simp
qed

subsection \<open>Presence of \<^verbatim>\<open>requests\<close>\<close>

text \<open>
  Claim C2 says that the result always has a \<^verbatim>\<open>requests\<close> sequence. The stage
  spreads whatever object it decoded: an answer whose JSON object has no
  \<^verbatim>\<open>requests\<close> member gives a result without one.
\<close>

theorem missing_requests_counterexample:
  \<open>fst (extractFeatureRequests (JStr ''hello'')
      (Some (\<lambda>m i. Resolves (JObj [(''response'', JStr ''{"summary":"Nothing was requested."}'')]) 7)))
   = JObj [(''summary'', JStr ''Nothing was requested.''),
           (''extractionTimeMs'', JNum 7),
           (''model'', JStr ''@cf/mistral/mistral-7b-instruct-v0.2-lora''),
           (''originalTranscription'', JStr ''hello'')]\<close>
proof -
  have h: \<open>JSON_parse ''{"summary":"Nothing was requested."}'' = Some (JObj [(''summary'', JStr ''Nothing was requested.'')])\<close>
    by code_simp
  have b: \<open>brace_span ''{"summary":"Nothing was requested."}'' = Some ''{"summary":"Nothing was requested."}''\<close>
    by (simp add: brace_span_def)
  show ?thesis
    by (simp add: extractFeatureRequests_def parse_response_def response_text_def match_braces_def
        b h obj_sets_def obj_set_def extraction_model_def)
qed

text \<open>
  Claim C2, amended. The result has a \<^verbatim>\<open>requests\<close> sequence whenever the
  backend call fails, the response does not parse, or the decoded object has a
  \<^verbatim>\<open>requests\<close> array; when the response parses, the result's \<^verbatim>\<open>requests\<close>
  is whatever the decoded object has under that name (possibly nothing, or a
  value that is no sequence).
\<close>

theorem requests_sequence_unless_decoded_otherwise:
  "((\<forall>run result ms parsed.
        ai = Some run \<and> run extraction_model (extraction_request transcription) = Resolves result ms
        \<and> parse_response result = Inr parsed \<longrightarrow> (\<exists>items. opt_prop parsed ''requests'' = JArr items))
      \<longrightarrow> (\<exists>items. opt_prop (fst (extractFeatureRequests transcription ai)) ''requests'' = JArr items))
   \<and> (ai = Some run \<and> run extraction_model (extraction_request transcription) = Resolves result ms
        \<and> parse_response result = Inr parsed
      \<longrightarrow> opt_prop (fst (extractFeatureRequests transcription ai)) ''requests'' = opt_prop parsed ''requests'')"
proof (intro conjI impI)
  assume ok: "\<forall>run result ms parsed.
        ai = Some run \<and> run extraction_model (extraction_request transcription) = Resolves result ms
        \<and> parse_response result = Inr parsed \<longrightarrow> (\<exists>items. opt_prop parsed ''requests'' = JArr items)"
  show "\<exists>items. opt_prop (fst (extractFeatureRequests transcription ai)) ''requests'' = JArr items"
  proof (cases ai)
    case None
    then show ?thesis
      by (simp add: extractFeatureRequests_def extraction_fallback_def opt_prop_def)
  next
    case (Some r)
    show ?thesis
    proof (cases "r extraction_model (extraction_request transcription)")
      case (Rejects err)
      with Some show ?thesis
        by (simp add: extractFeatureRequests_def extraction_fallback_def opt_prop_def)
    next
      case (Resolves res n)
      show ?thesis
      proof (cases "parse_response res")
        case (Inl perr)
        with Some Resolves
        have "opt_prop (fst (extractFeatureRequests transcription ai)) ''requests''
              = opt_prop (JObj (own_props parse_error_result)) ''requests''"
          by (simp add: extraction_success_requests)
        then show ?thesis
          by (simp add: parse_error_result_def opt_prop_def)
      next
        case (Inr v)
        with ok Some Resolves obtain items where "opt_prop v ''requests'' = JArr items"
          by blast
        with Some Resolves Inr show ?thesis
          by (simp add: extraction_success_requests opt_prop_own_props)
      qed
    qed
  qed
next
  assume "ai = Some run \<and> run extraction_model (extraction_request transcription) = Resolves result ms
        \<and> parse_response result = Inr parsed"
  then show "opt_prop (fst (extractFeatureRequests transcription ai)) ''requests'' = opt_prop parsed ''requests''"
    by (simp add: extraction_success_requests opt_prop_own_props)
qed

theorem requests_sequence_witness:
  \<open>opt_prop (fst (extractFeatureRequests (JStr ''hello'')
      (Some (\<lambda>m i. Resolves (JObj [(''response'', JStr ''{"requests":[],"summary":"Nothing."}'')]) 7)))) ''requests''
    = JArr []
   \<and> opt_prop (fst (extractFeatureRequests (JStr ''hello'')
      (Some (\<lambda>m i. Resolves (JObj [(''response'', JStr ''{"requests":"none"}'')]) 7)))) ''requests''
    = JStr ''none''\<close>
proof -
  let ?r1 = \<open>JObj [(''response'', JStr ''{"requests":[],"summary":"Nothing."}'')]\<close>
  let ?r2 = \<open>JObj [(''response'', JStr ''{"requests":"none"}'')]\<close>
  let ?run1 = "\<lambda>(m::string) (i::ai_input). Resolves ?r1 7"
  let ?run2 = "\<lambda>(m::string) (i::ai_input). Resolves ?r2 7"
  have j1: \<open>JSON_parse ''{"requests":[],"summary":"Nothing."}'' = Some (JObj [(''requests'', JArr []), (''summary'', JStr ''Nothing.'')])\<close>
    by code_simp
  have j2: \<open>JSON_parse ''{"requests":"none"}'' = Some (JObj [(''requests'', JStr ''none'')])\<close>
    by code_simp
  have p1: "parse_response ?r1 = Inr (JObj [(''requests'', JArr []), (''summary'', JStr ''Nothing.'')])"
    by (simp add: parse_response_def response_text_def match_braces_def brace_span_def j1)
  have p2: "parse_response ?r2 = Inr (JObj [(''requests'', JStr ''none'')])"
    by (simp add: parse_response_def response_text_def match_braces_def brace_span_def j2)
  have "\<exists>items. opt_prop (fst (extractFeatureRequests (JStr ''hello'') (Some ?run1))) ''requests'' = JArr items"
    using requests_sequence_unless_decoded_otherwise[where ai = "Some ?run1" and transcription = "JStr ''hello''"]
      p1 by (simp add: opt_prop_def)
  moreover have "opt_prop (fst (extractFeatureRequests (JStr ''hello'') (Some ?run1))) ''requests'' = JArr []"
    using requests_sequence_unless_decoded_otherwise[where ai = "Some ?run1" and transcription = "JStr ''hello''"
        and run = ?run1 and result = ?r1 and ms = 7 and parsed = "JObj [(''requests'', JArr []), (''summary'', JStr ''Nothing.'')]"]
      p1 by (simp add: opt_prop_def)
  moreover have "opt_prop (fst (extractFeatureRequests (JStr ''hello'') (Some ?run2))) ''requests'' = JStr ''none''"
    using requests_sequence_unless_decoded_otherwise[where ai = "Some ?run2" and transcription = "JStr ''hello''"
        and run = ?run2 and result = ?r2 and ms = 7 and parsed = "JObj [(''requests'', JStr ''none'')]"]
      p2 by (simp add: opt_prop_def)
  ultimately show ?thesis by simp
qed

section \<open>Properties of the transcription stage\<close>

text \<open>
  Claim C1 says that the transcription stage runs the extraction stage on
  whatever text it has, the mock text included. In the \<^verbatim>\<open>catch\<close> branch it
  does not: the embedded result is a fixed literal (record \<^verbatim>\<open>mock-1\<close>), where
  the extraction stage on the mock text would have produced \<^verbatim>\<open>fallback-1\<close>,
  and the text-generation model is not called even when it would answer.
\<close>

theorem mock_without_extraction_counterexample:
  \<open>opt_prop (opt_prop (fst (processAudioWithAI [] None)) ''featureRequests'') ''requests'' = JArr [mock_record]
   \<and> opt_prop (fst (extractFeatureRequests (opt_prop (fst (processAudioWithAI [] None)) ''transcription'') None))
        ''requests'' = JArr [fallback_record]
   \<and> opt_prop mock_record ''id'' = JStr ''mock-1''
   \<and> opt_prop fallback_record ''id'' = JStr ''fallback-1''
   \<and> snd (processAudioWithAI [] None) = [Sleep 500]
   \<and> snd (processAudioWithAI [1, 2, 3]
        (Some (\<lambda>m i. if m = transcription_model then Rejects (Error ''timeout'')
                       else Resolves (JObj [(''response'', JStr ''{"requests":[]}'')]) 5)))
      = [AiRun transcription_model (Audio [1, 2, 3]), Sleep 500]\<close>
  by (simp add: processAudioWithAI_def transcription_fallback_def mock_feature_requests_def
      extractFeatureRequests_def extraction_fallback_def opt_prop_def mock_record_def fallback_record_def)

text \<open>
  Claim C1, amended. When the transcription call resolves, the stage runs the
  extraction stage on the text it obtained (possibly empty) and embeds its
  result. When the handle is absent or the call fails, the stage sleeps 500 ms
  and embeds the fixed mock result with the single record \<^verbatim>\<open>mock-1\<close>, without
  calling the text-generation model.
\<close>

theorem extraction_runs_when_transcription_succeeds:
  "(run transcription_model (Audio audioBuffer) = Resolves result ms \<longrightarrow>
      opt_prop (fst (processAudioWithAI audioBuffer (Some run))) ''transcription''
        = js_or (opt_prop result ''text'') (js_or (opt_prop result ''transcription'') (JStr []))
      \<and> opt_prop (fst (processAudioWithAI audioBuffer (Some run))) ''featureRequests''
        = fst (extractFeatureRequests
                 (js_or (opt_prop result ''text'') (js_or (opt_prop result ''transcription'') (JStr [])))
                 (Some run))
      \<and> snd (processAudioWithAI audioBuffer (Some run))
        = AiRun transcription_model (Audio audioBuffer)
          # snd (extractFeatureRequests
                 (js_or (opt_prop result ''text'') (js_or (opt_prop result ''transcription'') (JStr [])))
                 (Some run)))
   \<and> ((ai = None \<and> err = Error ''AI binding not available'')
        \<or> (\<exists>r. ai = Some r \<and> r transcription_model (Audio audioBuffer) = Rejects err) \<longrightarrow>
      opt_prop (fst (processAudioWithAI audioBuffer ai)) ''transcription'' = JStr mock_transcription
      \<and> opt_prop (fst (processAudioWithAI audioBuffer ai)) ''featureRequests'' = mock_feature_requests err
      \<and> opt_prop (mock_feature_requests err) ''requests'' = JArr [mock_record]
      \<and> opt_prop mock_record ''id'' = JStr ''mock-1''
      \<and> (\<forall>i. AiRun extraction_model i \<notin> set (snd (processAudioWithAI audioBuffer ai)))
      \<and> last (snd (processAudioWithAI audioBuffer ai)) = Sleep 500)"
proof (intro conjI impI)
  assume "(ai = None \<and> err = Error ''AI binding not available'')
        \<or> (\<exists>r. ai = Some r \<and> r transcription_model (Audio audioBuffer) = Rejects err)"
  then have stage: "processAudioWithAI audioBuffer ai =
      (transcription_fallback err,
       (case ai of None \<Rightarrow> [] | Some r \<Rightarrow> [AiRun transcription_model (Audio audioBuffer)]) @ [Sleep 500])"
    by (auto simp: processAudioWithAI_def)
  have models: "transcription_model \<noteq> extraction_model"
    by (simp add: transcription_model_def extraction_model_def)
  show "opt_prop (fst (processAudioWithAI audioBuffer ai)) ''transcription'' = JStr mock_transcription"
    by (simp add: stage transcription_fallback_def opt_prop_def)
  show "opt_prop (fst (processAudioWithAI audioBuffer ai)) ''featureRequests'' = mock_feature_requests err"
    by (simp add: stage transcription_fallback_def opt_prop_def)
  show "opt_prop (mock_feature_requests err) ''requests'' = JArr [mock_record]"
    by (simp add: mock_feature_requests_def opt_prop_def)
  show "opt_prop mock_record ''id'' = JStr ''mock-1''"
    by (simp add: mock_record_def opt_prop_def)
  show "\<forall>i. AiRun extraction_model i \<notin> set (snd (processAudioWithAI audioBuffer ai))"
    using models by (simp add: stage split: option.splits)
  show "last (snd (processAudioWithAI audioBuffer ai)) = Sleep 500"
    by (simp add: stage)
qed (simp_all add: processAudioWithAI_def Let_def opt_prop_def)

theorem extraction_runs_witness:
  "opt_prop (fst (processAudioWithAI [1, 2, 3]
      (Some (\<lambda>m i. if m = transcription_model then Resolves (JObj [(''text'', JStr ''add dark mode'')]) 12
                     else Rejects (Error ''quota'')))))
     ''featureRequests''
   = fst (extractFeatureRequests (JStr ''add dark mode'')
      (Some (\<lambda>m i. if m = transcription_model then Resolves (JObj [(''text'', JStr ''add dark mode'')]) 12
                     else Rejects (Error ''quota''))))
   \<and> opt_prop (fst (processAudioWithAI [1, 2, 3] None)) ''featureRequests''
     = mock_feature_requests (Error ''AI binding not available'')
   \<and> last (snd (processAudioWithAI [1, 2, 3] None)) = Sleep 500"
proof -
  let ?result = "JObj [(''text'', JStr ''add dark mode'')]"
  let ?run = "\<lambda>(m::string) (i::ai_input).
       if m = transcription_model then Resolves ?result 12 else Rejects (Error ''quota'')"
  have h1: "?run transcription_model (Audio [1, 2, 3]) = Resolves ?result 12"
    by simp
  have t: "js_or (opt_prop ?result ''text'') (js_or (opt_prop ?result ''transcription'') (JStr [])) = JStr ''add dark mode''"
    by (simp add: js_or_def opt_prop_def)
  have h2: "((None :: ai_binding option) = None \<and> Error ''AI binding not available'' = Error ''AI binding not available'')
        \<or> (\<exists>r. None = Some r \<and> r transcription_model (Audio [1, 2, 3]) = Rejects (Error ''AI binding not available''))"
    by simp
  note a = extraction_runs_when_transcription_succeeds[where run = ?run and audioBuffer = "[1, 2, 3]"
      and result = ?result and ms = 12, THEN conjunct1, rule_format, OF h1]
  note b = extraction_runs_when_transcription_succeeds[where ai = None and audioBuffer = "[1, 2, 3]"
      and err = "Error ''AI binding not available''", THEN conjunct2, rule_format, OF h2]
  show ?thesis
    using a b t by simp
qed

section \<open>Properties of the extract-from-text endpoint\<close>

text \<open>
  Claim C8 says that a body whose \<^verbatim>\<open>transcription\<close> is the empty string is not
  rejected with 400 and that the extraction stage runs on it. The handler's
  guard is \<^verbatim>\<open>if (!transcription)\<close>, and the empty string is falsy: the answer
  is 400 and nothing else happens.
\<close>

theorem empty_transcription_rejected_counterexample:
  \<open>extract_features_handler ''{"transcription":""}''
      \<lparr>AI = Some (\<lambda>m i. Resolves (JObj [(''response'', JStr ''{"requests":[]}'')]) 5),
       AUDIO_BUCKET = None, audio2features = None, uuids = (\<lambda>n. []), drawn = 0\<rparr>
   = (\<lparr>status = 400, body = JObj [(''error'', JStr ''No transcription provided'')]\<rparr>, [])\<close>
proof -
  have \<open>JSON_parse ''{"transcription":""}'' = Some (JObj [(''transcription'', JStr [])])\<close>
    by code_simp
  then show ?thesis
    by (simp add: extract_features_handler_def bad_request_def)
qed

text \<open>
  Claim C8, amended. The endpoint answers 400 \<^verbatim>\<open>No transcription provided\<close>,
  without running the extraction stage, for every body whose \<^verbatim>\<open>transcription\<close>
  is falsy: missing, \<^verbatim>\<open>null\<close>, \<^verbatim>\<open>false\<close>, zero or the empty string. For every
  other transcription it runs the stage (which always calls the backend or
  sleeps) and answers 200. The stage itself enforces no minimum length: the
  upload pipeline runs it on the empty string when the transcription backend
  returns an empty text.
\<close>

theorem falsy_transcription_rejected:
  "(JSON_parse request_body = Some b \<and> get_prop b ''transcription'' = Inr transcription \<longrightarrow>
      (\<not> truthy transcription \<longrightarrow>
         extract_features_handler request_body e
           = (\<lparr>status = 400, body = JObj [(''error'', JStr ''No transcription provided'')]\<rparr>, []))
      \<and> (truthy transcription \<longrightarrow>
         extract_features_handler request_body e
           = (\<lparr>status = 200,
               body = JObj [(''success'', JBool True),
                            (''featureRequests'', fst (extractFeatureRequests transcription (AI e))),
                            (''message'', JStr ''Feature requests extracted successfully'')]\<rparr>,
              snd (extractFeatureRequests transcription (AI e)))))
   \<and> \<not> truthy (JStr [])
   \<and> snd (extractFeatureRequests transcription (AI e)) \<noteq> []
   \<and> (run transcription_model (Audio audioBuffer) = Resolves (JObj [(''text'', JStr [])]) ms \<longrightarrow>
        opt_prop (fst (processAudioWithAI audioBuffer (Some run))) ''featureRequests''
          = fst (extractFeatureRequests (JStr []) (Some run)))"
proof -
  have ran: "snd (extractFeatureRequests transcription (AI e)) \<noteq> []"
    by (simp add: extractFeatureRequests_def Let_def split: option.splits ai_outcome.splits)
  have upload: "opt_prop (fst (processAudioWithAI audioBuffer (Some run))) ''featureRequests''
          = fst (extractFeatureRequests (JStr []) (Some run))"
    if "run transcription_model (Audio audioBuffer) = Resolves (JObj [(''text'', JStr [])]) ms"
    using that by (simp add: processAudioWithAI_def Let_def opt_prop_def js_or_def)
  show ?thesis
    using ran upload
    by (simp add: extract_features_handler_def bad_request_def Let_def)
qed

theorem falsy_transcription_witness:
  \<open>extract_features_handler ''{"other":1}'' \<lparr>AI = None, AUDIO_BUCKET = None, audio2features = None,
        uuids = (\<lambda>n. []), drawn = 0\<rparr>
     = (\<lparr>status = 400, body = JObj [(''error'', JStr ''No transcription provided'')]\<rparr>, [])
   \<and> status (fst (extract_features_handler ''{"transcription":"add dark mode"}''
        \<lparr>AI = None, AUDIO_BUCKET = None, audio2features = None, uuids = (\<lambda>n. []), drawn = 0\<rparr>)) = 200
   \<and> snd (extract_features_handler ''{"transcription":"add dark mode"}''
        \<lparr>AI = None, AUDIO_BUCKET = None, audio2features = None, uuids = (\<lambda>n. []), drawn = 0\<rparr>) = [Sleep 300]
   \<and> opt_prop (fst (processAudioWithAI [7] (Some (\<lambda>m i. Resolves (JObj [(''text'', JStr [])]) 3)))) ''featureRequests''
     = fst (extractFeatureRequests (JStr []) (Some (\<lambda>m i. Resolves (JObj [(''text'', JStr [])]) 3)))\<close>
proof -
  let ?e = "\<lparr>AI = None, AUDIO_BUCKET = None, audio2features = None, uuids = (\<lambda>n::nat. ([]::string)), drawn = 0\<rparr>"
  let ?run = "\<lambda>(m::string) (i::ai_input). Resolves (JObj [(''text'', JStr [])]) 3"
  have j1: \<open>JSON_parse ''{"other":1}'' = Some (JObj [(''other'', JNum 1)])\<close>
    by code_simp
  have j2: \<open>JSON_parse ''{"transcription":"add dark mode"}'' = Some (JObj [(''transcription'', JStr ''add dark mode'')])\<close>
    by code_simp
  have g1: "get_prop (JObj [(''other'', JNum 1)]) ''transcription'' = Inr JUndefined"
    by simp
  have g2: "get_prop (JObj [(''transcription'', JStr ''add dark mode'')]) ''transcription'' = Inr (JStr ''add dark mode'')"
    by simp
  have h3: "?run transcription_model (Audio [7]) = Resolves (JObj [(''text'', JStr [])]) 3"
    by simp
  note a = falsy_transcription_rejected[where request_body = \<open>''{"other":1}''\<close> and b = "JObj [(''other'', JNum 1)]"
      and transcription = JUndefined and e = ?e, THEN conjunct1, rule_format, OF conjI[OF j1 g1]]
  note b = falsy_transcription_rejected[where request_body = \<open>''{"transcription":"add dark mode"}''\<close>
      and b = "JObj [(''transcription'', JStr ''add dark mode'')]"
      and transcription = "JStr ''add dark mode''" and e = ?e, THEN conjunct1, rule_format, OF conjI[OF j2 g2]]
  note c = falsy_transcription_rejected[where run = ?run and audioBuffer = "[7]" and ms = 3,
      THEN conjunct2, THEN conjunct2, THEN conjunct2, rule_format, OF h3]
  show ?thesis
    using a b c by (simp add: extractFeatureRequests_def)
qed

section \<open>Properties of the upload handler\<close>

subsection \<open>The filter and the statements, step by step\<close>

lemma is_actionable_record: "is_record r \<Longrightarrow> is_actionable r = Inr (actionable r)"
  by (auto simp: is_record_def is_actionable_def actionable_def opt_prop_def
      split: jsval.splits option.splits)

lemma actionableRequests_records:
  "list_all is_record rs \<Longrightarrow> actionableRequests rs = Inr (filter actionable rs)"
  by (induction rs) (simp_all add: is_actionable_record)

lemma actionable_title:
  "actionable r \<Longrightarrow> \<exists>t. opt_prop r ''title'' = JStr t \<and> t \<noteq> []"
  by (auto simp: actionable_def split: jsval.splits)

lemma request_row_actionable:
  "actionable r \<Longrightarrow> request_row rowId fileId summary r = Inr (bound_row rowId fileId summary r)"
  by (cases r) (auto simp: request_row_def actionable_def opt_prop_def)

lemma bound_row_not_null [simp]:
  "fr_title (bound_row rowId fileId summary r) \<noteq> Null"
  "fr_description (bound_row rowId fileId summary r) \<noteq> Null"
  by (simp_all add: bound_row_def)

lemma run_statement_no_faults:
  "no_faults db \<Longrightarrow>
   run_statement st db =
     (case apply_statement st (db\<lparr>faults := tl (faults db)\<rparr>) of
        None \<Rightarrow> (False, db\<lparr>faults := tl (faults db)\<rparr>)
      | Some db' \<Rightarrow> (True, db'))"
  by (cases "faults db") (auto simp: run_statement_def no_faults_def Let_def split: list.splits bool.splits option.splits)

lemma insert_requests_all:
  assumes "no_faults db" and "list_all actionable reqs" and "feature_requests db = Some rows"
  shows "insert_requests fileId summary reqs ids k db =
           (k + length reqs,
            db\<lparr>feature_requests := Some (rows @ named_rows ids k fileId summary reqs),
               faults := drop (length reqs) (faults db)\<rparr>)"
  using assms
proof (induction reqs arbitrary: k db rows)
  case Nil
  then show ?case by simp
next
  case (Cons req rest)
  let ?db1 = "db\<lparr>faults := tl (faults db),
                 feature_requests := Some (rows @ [bound_row (ids k) fileId summary req])\<rparr>"
  have step: "run_statement (InsertFeatureRequest (bound_row (ids k) fileId summary req)) db = (True, ?db1)"
    using Cons.prems by (simp add: run_statement_no_faults)
  have nf: "no_faults ?db1"
    using Cons.prems(1) by (cases "faults db") (auto simp: no_faults_def)
  have "insert_requests fileId summary rest ids (Suc k) ?db1 =
          (Suc k + length rest,
           ?db1\<lparr>feature_requests := Some ((rows @ [bound_row (ids k) fileId summary req])
                     @ named_rows ids (Suc k) fileId summary rest),
                faults := drop (length rest) (faults ?db1)\<rparr>)"
    using Cons.prems by (intro Cons.IH nf) simp_all
  then show ?case
    using Cons.prems by (simp add: request_row_actionable step drop_Suc)
qed


lemma not_in_tl: "True \<notin> set xs \<Longrightarrow> True \<notin> set (tl xs)"
  by (cases xs) simp_all

lemma store_metadata_works:
  assumes "no_faults db"
  shows "store_metadata (Some db) row =
           (True, Some \<lparr>audio_files = Some (rows_of (audio_files db) @ [row]),
                       feature_requests = Some (rows_of (feature_requests db)),
                       faults = drop 3 (faults db)\<rparr>)"
proof -
  let ?db1 = "db\<lparr>faults := tl (faults db), audio_files := Some (rows_of (audio_files db))\<rparr>"
  let ?db2 = "?db1\<lparr>faults := tl (faults ?db1), feature_requests := Some (rows_of (feature_requests db))\<rparr>"
  let ?db3 = "?db2\<lparr>faults := tl (faults ?db2), audio_files := Some (rows_of (audio_files db) @ [row])\<rparr>"
  have nf: "True \<notin> set (faults db)"
    using assms by (simp add: no_faults_def)
  have s1: "run_statement CreateAudioFiles db = (True, ?db1)"
    using assms by (simp add: run_statement_no_faults rows_of_def)
  have nf1: "no_faults ?db1"
    using nf by (simp add: no_faults_def not_in_tl)
  have s2: "run_statement CreateFeatureRequests ?db1 = (True, ?db2)"
    using nf1 by (simp add: run_statement_no_faults rows_of_def)
  have nf2: "no_faults ?db2"
    using nf by (simp add: no_faults_def not_in_tl)
  have s3: "run_statement (InsertAudioFile row) ?db2 = (True, ?db3)"
    using nf2 by (simp add: run_statement_no_faults)
  have "?db3 = \<lparr>audio_files = Some (rows_of (audio_files db) @ [row]),
                       feature_requests = Some (rows_of (feature_requests db)),
                       faults = drop 3 (faults db)\<rparr>"
    by (cases db) (simp add: drop_Suc numeral_3_eq_3 drop_tl)
  then show ?thesis
    using s1 s2 s3 by (simp add: store_metadata_def Let_def)
qed

lemma store_feature_requests_works:
  assumes "no_faults db"
    and "opt_prop (opt_prop aiFeatures ''featureRequests'') ''requests'' = JArr requests"
    and "list_all is_record requests"
  shows "\<exists>n. store_feature_requests (Some db) aiFeatures fileId ids k =
           (k + max 1 (length (filter actionable requests)),
            Some \<lparr>audio_files = audio_files db,
                  feature_requests = Some (rows_of (feature_requests db)
                     @ named_rows ids k fileId (or_null (opt_prop (opt_prop aiFeatures ''featureRequests'') ''summary''))
                         (filter actionable requests)),
                  faults = drop n (faults db)\<rparr>)"
proof -
  let ?fr = "opt_prop aiFeatures ''featureRequests''"
  let ?summary = "or_null (opt_prop ?fr ''summary'')"
  let ?acts = "filter actionable requests"
  let ?db1 = "db\<lparr>faults := tl (faults db), feature_requests := Some (rows_of (feature_requests db))\<rparr>"
  have nf: "True \<notin> set (faults db)"
    using assms(1) by (simp add: no_faults_def)
  have tr: "truthy ?fr"
    using assms(2) by (cases ?fr) (simp_all add: opt_prop_def)
  have s1: "run_statement CreateFeatureRequests db = (True, ?db1)"
    using assms(1) by (simp add: run_statement_no_faults rows_of_def)
  have nf1: "no_faults ?db1"
    using nf by (simp add: no_faults_def not_in_tl)
  have acts: "actionableRequests requests = Inr ?acts"
    using assms(3) by (rule actionableRequests_records)
  show ?thesis
  proof (cases "?acts = []")
    case True
    have rej: "run_statement (InsertFeatureRequest (placeholder_row (ids k) fileId ?summary)) ?db1
               = (False, ?db1\<lparr>faults := tl (faults ?db1)\<rparr>)"
      using nf1 by (simp add: run_statement_no_faults placeholder_row_def)
    have "?db1\<lparr>faults := tl (faults ?db1)\<rparr> =
          \<lparr>audio_files = audio_files db,
           feature_requests = Some (rows_of (feature_requests db) @ named_rows ids k fileId ?summary ?acts),
           faults = drop 2 (faults db)\<rparr>"
      using True by (cases db) (simp add: drop_Suc numeral_2_eq_2 drop_tl)
    then have "store_feature_requests (Some db) aiFeatures fileId ids k =
           (k + max 1 (length ?acts),
            Some \<lparr>audio_files = audio_files db,
                  feature_requests = Some (rows_of (feature_requests db) @ named_rows ids k fileId ?summary ?acts),
                  faults = drop 2 (faults db)\<rparr>)"
      using True tr assms(2) s1 acts rej
      by (simp add: store_feature_requests_def Let_def)
    then show ?thesis by blast
  next
    case False
    have all: "list_all actionable ?acts"
      by (simp add: list_all_iff)
    have ins: "insert_requests fileId ?summary ?acts ids k ?db1 =
           (k + length ?acts,
            ?db1\<lparr>feature_requests := Some (rows_of (feature_requests db) @ named_rows ids k fileId ?summary ?acts),
                faults := drop (length ?acts) (faults ?db1)\<rparr>)"
      using nf1 all by (intro insert_requests_all) simp_all
    have "?db1\<lparr>feature_requests := Some (rows_of (feature_requests db) @ named_rows ids k fileId ?summary ?acts),
                faults := drop (length ?acts) (faults ?db1)\<rparr> =
          \<lparr>audio_files = audio_files db,
           feature_requests = Some (rows_of (feature_requests db) @ named_rows ids k fileId ?summary ?acts),
           faults = drop (Suc (length ?acts)) (faults db)\<rparr>"
      by (cases db) (simp add: drop_Suc drop_tl)
    moreover have "max 1 (length ?acts) = length ?acts"
      using False by (cases ?acts) simp_all
    ultimately have "store_feature_requests (Some db) aiFeatures fileId ids k =
           (k + max 1 (length ?acts),
            Some \<lparr>audio_files = audio_files db,
                  feature_requests = Some (rows_of (feature_requests db) @ named_rows ids k fileId ?summary ?acts),
                  faults = drop (Suc (length ?acts)) (faults db)\<rparr>)"
      using False tr assms(2) s1 acts ins
      by (simp add: store_feature_requests_def Let_def)
    then show ?thesis by blast
  qed
qed

subsection \<open>The handler as a whole\<close>

lemma upload_response:
  assumes "valid_upload f"
  shows "fst (upload_handler (Form (FileValue f)) e) =
           \<lparr>status = 200,
            body = JObj [(''success'', JBool True),
                         (''audioInfo'', audioInfo f (uuids e (drawn e))
                            (case AUDIO_BUCKET e of None \<Rightarrow> False | Some b \<Rightarrow> put_failure b = None)),
                         (''aiFeatures'', fst (processAudioWithAI (file_bytes f) (AI e))),
                         (''message'', JStr ''Audio processed successfully'')]\<rparr>"
proof -
  have "fst (store_audio (AUDIO_BUCKET e) obj)
        = (case AUDIO_BUCKET e of None \<Rightarrow> False | Some b \<Rightarrow> put_failure b = None)" for obj
    by (simp add: store_audio_def r2_put_def split: option.splits)
  then show ?thesis
    using assms by (simp add: upload_handler_def valid_upload_def process_upload_def Let_def)
qed

lemma upload_store:
  assumes "valid_upload f"
    and "audio2features e = Some db" and "no_faults db"
    and "opt_prop (opt_prop (fst (processAudioWithAI (file_bytes f) (AI e))) ''featureRequests'') ''requests''
           = JArr requests"
    and "list_all is_record requests"
  shows "\<exists>db'. audio2features (fst (snd (upload_handler (Form (FileValue f)) e))) = Some db'
           \<and> feature_requests db' =
               Some (rows_of (feature_requests db)
                     @ named_rows (uuids e) (Suc (drawn e)) (uuids e (drawn e))
                         (or_null (opt_prop (opt_prop (fst (processAudioWithAI (file_bytes f) (AI e)))
                                               ''featureRequests'') ''summary''))
                         (filter actionable requests))"
proof -
  let ?fileId = "uuids e (drawn e)"
  let ?ai = "fst (processAudioWithAI (file_bytes f) (AI e))"
  let ?stored = "store_audio (AUDIO_BUCKET e)
                     \<lparr>r2_key = r2Key ?fileId (file_name f), r2_body = file_bytes f,
                      r2_contentType = file_type f\<rparr>"
  let ?row = "\<lparr>af_id = ?fileId, af_file_name = file_name f, af_file_size = file_size f,
                        af_file_type = file_type f,
                        af_r2_key = (if fst ?stored then Some (r2Key ?fileId (file_name f)) else None)\<rparr>"
  let ?db1 = "\<lparr>audio_files = Some (rows_of (audio_files db) @ [?row]),
                       feature_requests = Some (rows_of (feature_requests db)),
                       faults = drop 3 (faults db)\<rparr>"
  have m: "store_metadata (audio2features e) ?row = (True, Some ?db1)"
    using assms(2,3) by (simp add: store_metadata_works)
  have nf1: "no_faults ?db1"
    using assms(3) by (auto simp: no_faults_def dest: in_set_dropD)
  obtain n where p: "store_feature_requests (Some ?db1) ?ai ?fileId (uuids e) (Suc (drawn e)) =
           (Suc (drawn e) + max 1 (length (filter actionable requests)),
            Some \<lparr>audio_files = audio_files ?db1,
                  feature_requests = Some (rows_of (feature_requests ?db1)
                     @ named_rows (uuids e) (Suc (drawn e)) ?fileId
                         (or_null (opt_prop (opt_prop ?ai ''featureRequests'') ''summary''))
                         (filter actionable requests)),
                  faults = drop n (faults ?db1)\<rparr>)"
    using store_feature_requests_works[OF nf1 assms(4) assms(5)] by blast
  show ?thesis
    using assms(1) m p
    by (simp add: upload_handler_def valid_upload_def process_upload_def Let_def rows_of_def)
qed

lemma named_rows_titles:
  "list_all actionable rs \<Longrightarrow>
   map fr_title (named_rows ids k fileId summary rs) = map (\<lambda>r. Val (opt_prop r ''title'')) rs"
proof (induction rs arbitrary: k)
  case Nil
  show ?case by simp
next
  case (Cons r rs)
  then obtain t where "opt_prop r ''title'' = JStr t" "t \<noteq> []"
    using actionable_title by auto
  with Cons show ?case
    by (simp add: bound_row_def js_or_def)
qed

lemma named_rows_length: "length (named_rows ids k fileId summary rs) = length rs"
  by (induction rs arbitrary: k) simp_all

lemma named_rows_ids: "map fr_id (named_rows ids k fileId summary rs) = map ids [k..<k + length rs]"
proof (induction rs arbitrary: k)
  case Nil
  show ?case by simp
next
  case (Cons r rs)
  have "[k..<k + length (r # rs)] = k # [Suc k..<Suc k + length rs]"
    by (simp add: upt_rec)
  with Cons show ?case
    by (simp add: bound_row_def)
qed

lemma named_rows_shared:
  "row \<in> set (named_rows ids k fileId summary rs) \<Longrightarrow>
   fr_audio_file_id row = fileId \<and> fr_summary row = summary \<and> fr_title row \<noteq> Null"
  by (induction rs arbitrary: k) (auto simp: bound_row_def)

lemma placeholder_rejected:
  "run_statement (InsertFeatureRequest (placeholder_row rowId fileId summary)) db
     = (False, db\<lparr>faults := tl (faults db)\<rparr>)"
  by (cases "faults db")
     (auto simp: run_statement_def placeholder_row_def Let_def split: option.splits bool.splits)

subsection \<open>The example inputs\<close>

lemma demo_file_valid: "valid_upload demo_file"
  by (simp add: valid_upload_def demo_file_def file_size_def maxSize_def)

lemma demo_store_works: "no_faults demo_store"
  by (simp add: no_faults_def demo_store_def)

lemma demo_transcription:
  "processAudioWithAI (file_bytes demo_file) (Some (demo_ai answer)) =
     (JObj [(''transcription'', JStr ''please add a dark mode''),
            (''language'', JUndefined),
            (''processingTimeMs'', JNum 120),
            (''model'', JStr transcription_model),
            (''featureRequests'', fst (extractFeatureRequests (JStr ''please add a dark mode'') (Some (demo_ai answer))))],
      AiRun transcription_model (Audio (file_bytes demo_file))
      # snd (extractFeatureRequests (JStr ''please add a dark mode'') (Some (demo_ai answer))))"
  by (simp add: processAudioWithAI_def demo_ai_def Let_def opt_prop_def js_or_def detected_language_def)

lemma demo_extraction:
  assumes "brace_span answer = Some jsonMatch" and "JSON_parse jsonMatch = Some (JObj kvs)"
  shows "fst (extractFeatureRequests (JStr ''please add a dark mode'') (Some (demo_ai answer))) =
     JObj (obj_sets kvs [(''extractionTimeMs'', JNum 800), (''model'', JStr extraction_model),
                         (''originalTranscription'', JStr ''please add a dark mode'')])"
proof -
  have "transcription_model \<noteq> extraction_model"
    by (simp add: transcription_model_def extraction_model_def)
  then have r: "demo_ai answer extraction_model (extraction_request (JStr ''please add a dark mode''))
        = Resolves (JObj [(''response'', JStr answer)]) 800"
    by (simp add: demo_ai_def)
  have "parse_response (JObj [(''response'', JStr answer)]) = Inr (JObj kvs)"
    using assms by (cases "answer = []") (simp_all add: parse_response_def response_text_def js_or_def match_braces_def)
  then show ?thesis
    by (simp add: extraction_success_shape[where run = "demo_ai answer", OF r])
qed

lemma mock_record_actionable: "actionable mock_record"
  by code_simp

lemma mock_record_is_record: "is_record mock_record"
  by (simp add: is_record_def mock_record_def)

text \<open>
  Of the three fixed records the worker can substitute, the filter drops only
  \<^verbatim>\<open>fallback-1\<close>: the title of \<^verbatim>\<open>parse-error-1\<close>,
  \<^verbatim>\<open>Unable to parse AI response\<close>, does not contain \<^verbatim>\<open>parse error\<close>.
\<close>

lemma fixed_records_actionable:
  "actionable mock_record \<and> actionable parse_error_record \<and> \<not> actionable fallback_record"
  by code_simp

subsection \<open>Which records are persisted\<close>

text \<open>
  Claim C5. For an upload whose extraction result holds feature-request records
  (objects whose title is an optional string) and whose relational store works,
  the handler's filter keeps exactly the actionable records (title present,
  non-empty, lowercase form containing neither \<^verbatim>\<open>parse error\<close> nor
  \<^verbatim>\<open>fallback\<close>); the named rows added to \<^verbatim>\<open>feature_requests\<close> are one per
  actionable record, in order and with that record's title, and no other; and
  the \<^verbatim>\<open>requests\<close> returned to the caller still holds every record.
\<close>

theorem named_rows_are_the_actionable_records:
  assumes "valid_upload f" and "audio2features e = Some db" and "no_faults db"
    and "opt_prop (opt_prop (fst (processAudioWithAI (file_bytes f) (AI e))) ''featureRequests'') ''requests''
           = JArr requests"
    and "list_all is_record requests"
  shows "actionableRequests requests = Inr (filter actionable requests)
     \<and> (\<exists>db' summary.
           audio2features (fst (snd (upload_handler (Form (FileValue f)) e))) = Some db'
           \<and> feature_requests db' =
               Some (rows_of (feature_requests db)
                     @ named_rows (uuids e) (Suc (drawn e)) (uuids e (drawn e)) summary
                         (filter actionable requests)))
     \<and> (\<forall>ids k fileId summary.
           map fr_title (named_rows ids k fileId summary (filter actionable requests))
             = map (\<lambda>r. Val (opt_prop r ''title'')) (filter actionable requests))
     \<and> opt_prop (opt_prop (opt_prop (body (fst (upload_handler (Form (FileValue f)) e))) ''aiFeatures'')
                   ''featureRequests'') ''requests'' = JArr requests"
proof (intro conjI)
  show "actionableRequests requests = Inr (filter actionable requests)"
    using assms(5) by (rule actionableRequests_records)
  show "\<exists>db' summary.
           audio2features (fst (snd (upload_handler (Form (FileValue f)) e))) = Some db'
           \<and> feature_requests db' =
               Some (rows_of (feature_requests db)
                     @ named_rows (uuids e) (Suc (drawn e)) (uuids e (drawn e)) summary
                         (filter actionable requests))"
    using upload_store[OF assms] by blast
  show "\<forall>ids k fileId summary.
           map fr_title (named_rows ids k fileId summary (filter actionable requests))
             = map (\<lambda>r. Val (opt_prop r ''title'')) (filter actionable requests)"
    by (simp add: named_rows_titles list_all_iff)
  show "opt_prop (opt_prop (opt_prop (body (fst (upload_handler (Form (FileValue f)) e))) ''aiFeatures'')
                   ''featureRequests'') ''requests'' = JArr requests"
    using assms(4) by (simp add: upload_response[OF assms(1)] opt_prop_def)
qed

theorem named_rows_witness:
  \<open>(\<exists>db'. audio2features (fst (snd (upload_handler (Form (FileValue demo_file))
        (demo_env (Some (demo_ai ''{"requests":[{"title":"Add dark mode","priority":"high"},{"title":"Parse Error: retry"},{"title":""},{"description":"no title"}],"summary":"One request."}''))
           None (Some demo_store))))) = Some db'
      \<and> map fr_title (rows_of (feature_requests db')) = [Val (JStr ''Add dark mode'')])
   \<and> opt_prop (opt_prop (opt_prop (body (fst (upload_handler (Form (FileValue demo_file))
        (demo_env (Some (demo_ai ''{"requests":[{"title":"Add dark mode","priority":"high"},{"title":"Parse Error: retry"},{"title":""},{"description":"no title"}],"summary":"One request."}''))
           None (Some demo_store))))) ''aiFeatures'') ''featureRequests'') ''requests''
     = JArr [JObj [(''title'', JStr ''Add dark mode''), (''priority'', JStr ''high'')],
             JObj [(''title'', JStr ''Parse Error: retry'')],
             JObj [(''title'', JStr [])],
             JObj [(''description'', JStr ''no title'')]]\<close>
proof -
  let ?answer = \<open>''{"requests":[{"title":"Add dark mode","priority":"high"},{"title":"Parse Error: retry"},{"title":""},{"description":"no title"}],"summary":"One request."}''\<close>
  let ?items = "[JObj [(''title'', JStr ''Add dark mode''), (''priority'', JStr ''high'')],
             JObj [(''title'', JStr ''Parse Error: retry'')],
             JObj [(''title'', JStr [])],
             JObj [(''description'', JStr ''no title'')]]"
  let ?kvs = "[(''requests'', JArr ?items), (''summary'', JStr ''One request.'')]"
  let ?e = "demo_env (Some (demo_ai ?answer)) None (Some demo_store)"
  have j: "JSON_parse ?answer = Some (JObj ?kvs)"
    by code_simp
  have b: "brace_span ?answer = Some ?answer"
    by (simp add: brace_span_def)
  have h4: "opt_prop (opt_prop (fst (processAudioWithAI (file_bytes demo_file) (AI ?e))) ''featureRequests'')
              ''requests'' = JArr ?items"
    by (simp add: demo_env_def demo_transcription demo_extraction[OF b j] opt_prop_def map_of_obj_sets)
  have h5: "list_all is_record ?items"
    by (simp add: is_record_def)
  have acts: "filter actionable ?items = [JObj [(''title'', JStr ''Add dark mode''), (''priority'', JStr ''high'')]]"
    by code_simp
  have h2: "audio2features ?e = Some demo_store"
    by (simp add: demo_env_def)
  note inst = named_rows_are_the_actionable_records[OF demo_file_valid h2 demo_store_works h4 h5]
  from inst obtain db' summary where
    db': "audio2features (fst (snd (upload_handler (Form (FileValue demo_file)) ?e))) = Some db'"
      "feature_requests db' = Some (rows_of (feature_requests demo_store)
          @ named_rows (uuids ?e) (Suc (drawn ?e)) (uuids ?e (drawn ?e)) summary (filter actionable ?items))"
    by blast
  have "map fr_title (rows_of (feature_requests db')) = [Val (JStr ''Add dark mode'')]"
    using db'(2) inst acts by (simp add: rows_of_def demo_store_def opt_prop_def)
  with db'(1) inst show ?thesis
    by simp
qed

subsection \<open>How many rows are written\<close>

text \<open>
  With \<open>N \<ge> 1\<close> actionable records the handler writes \<open>N\<close> rows, each with
  its own draw of \<^verbatim>\<open>crypto.randomUUID()\<close> (pairwise different, and different from
  the file's, when the draws are), the parent audio-file identifier and the
  shared summary.
\<close>

lemma actionable_rows_written:
  assumes "valid_upload f" and "audio2features e = Some db" and "no_faults db"
    and "opt_prop (opt_prop (fst (processAudioWithAI (file_bytes f) (AI e))) ''featureRequests'') ''requests''
           = JArr requests"
    and "list_all is_record requests"
  shows "\<exists>db' rows summary.
           audio2features (fst (snd (upload_handler (Form (FileValue f)) e))) = Some db'
           \<and> feature_requests db' = Some (rows_of (feature_requests db) @ rows)
           \<and> length rows = length (filter actionable requests)
           \<and> map fr_id rows = map (uuids e) [Suc (drawn e)..<Suc (drawn e) + length rows]
           \<and> (inj (uuids e) \<longrightarrow> distinct (map fr_id rows) \<and> uuids e (drawn e) \<notin> set (map fr_id rows))
           \<and> (\<forall>row\<in>set rows. fr_audio_file_id row = uuids e (drawn e) \<and> fr_summary row = summary
                  \<and> fr_title row \<noteq> Null)"
proof -
  obtain db' summary where
    db': "audio2features (fst (snd (upload_handler (Form (FileValue f)) e))) = Some db'"
      "feature_requests db' =
               Some (rows_of (feature_requests db)
                     @ named_rows (uuids e) (Suc (drawn e)) (uuids e (drawn e)) summary
                         (filter actionable requests))"
    using upload_store[OF assms] by blast
  let ?rows = "named_rows (uuids e) (Suc (drawn e)) (uuids e (drawn e)) summary (filter actionable requests)"
  have len: "length ?rows = length (filter actionable requests)"
    by (rule named_rows_length)
  have ids: "map fr_id ?rows = map (uuids e) [Suc (drawn e)..<Suc (drawn e) + length ?rows]"
    by (simp add: named_rows_ids len)
  have fresh: "distinct (map fr_id ?rows) \<and> uuids e (drawn e) \<notin> set (map fr_id ?rows)" if "inj (uuids e)"
  proof -
    have "distinct (map (uuids e) [Suc (drawn e)..<Suc (drawn e) + length ?rows])"
      using that by (simp add: distinct_map inj_on_def inj_def)
    moreover have "uuids e (drawn e) \<notin> uuids e ` set [Suc (drawn e)..<Suc (drawn e) + length ?rows]"
    proof
      assume "uuids e (drawn e) \<in> uuids e ` set [Suc (drawn e)..<Suc (drawn e) + length ?rows]"
      then obtain x where "uuids e (drawn e) = uuids e x" "Suc (drawn e) \<le> x"
        by auto
      with that show False
        by (auto dest: injD)
    qed
    ultimately show ?thesis
      unfolding ids by simp
  qed
  have shared: "\<forall>row\<in>set ?rows. fr_audio_file_id row = uuids e (drawn e) \<and> fr_summary row = summary
                  \<and> fr_title row \<noteq> Null"
    using named_rows_shared by blast
  show ?thesis
    using db' len ids fresh shared by blast
qed

text \<open>
  Claim C6 also says that with no actionable record exactly one placeholder row
  is written, with every content column \<^verbatim>\<open>NULL\<close> except the summary. The
  handler does issue that statement (comment: store the summary for
  traceability), but the table it has just created declares \<^verbatim>\<open>title\<close> and
  \<^verbatim>\<open>description\<close> as \<^verbatim>\<open>NOT NULL\<close>, so the store rejects the row, the
  \<^verbatim>\<open>catch\<close> swallows the failure, and no row is written. Below, an upload
  whose extraction answers with an empty \<^verbatim>\<open>requests\<close> array against an empty,
  working store: the audio row is there, a second identifier was drawn for the
  placeholder, and \<^verbatim>\<open>feature_requests\<close> is still empty.
\<close>

theorem placeholder_row_rejected:
  \<open>audio2features (fst (snd (upload_handler (Form (FileValue demo_file))
       (demo_env (Some (demo_ai ''{"requests":[],"summary":"No feature requests."}'')) None (Some demo_store)))))
     = Some \<lparr>audio_files = Some [\<lparr>af_id = ''id-'', af_file_name = ''field note 1.mp3'', af_file_size = 4,
                                   af_file_type = ''audio/mpeg'', af_r2_key = None\<rparr>],
             feature_requests = Some [],
             faults = []\<rparr>
   \<and> drawn (fst (snd (upload_handler (Form (FileValue demo_file))
       (demo_env (Some (demo_ai ''{"requests":[],"summary":"No feature requests."}'')) None (Some demo_store)))))
     = 2
   \<and> apply_statement
        (InsertFeatureRequest (placeholder_row ''id-x'' ''id-'' (Val (JStr ''No feature requests.''))))
        \<lparr>audio_files = Some [], feature_requests = Some [], faults = []\<rparr>
     = None
   \<and> status (fst (upload_handler (Form (FileValue demo_file))
       (demo_env (Some (demo_ai ''{"requests":[],"summary":"No feature requests."}'')) None (Some demo_store))))
     = 200\<close>
proof -
  let ?answer = \<open>''{"requests":[],"summary":"No feature requests."}''\<close>
  let ?kvs = "[(''requests'', JArr []), (''summary'', JStr ''No feature requests.'')]"
  let ?e = "demo_env (Some (demo_ai ?answer)) None (Some demo_store)"
  have j: "JSON_parse ?answer = Some (JObj ?kvs)"
    by code_simp
  have b: "brace_span ?answer = Some ?answer"
    by (simp add: brace_span_def)
  have ai: "fst (processAudioWithAI (file_bytes demo_file) (Some (demo_ai ?answer))) =
     JObj [(''transcription'', JStr ''please add a dark mode''),
            (''language'', JUndefined),
            (''processingTimeMs'', JNum 120),
            (''model'', JStr transcription_model),
            (''featureRequests'',
               JObj [(''requests'', JArr []), (''summary'', JStr ''No feature requests.''),
                     (''extractionTimeMs'', JNum 800), (''model'', JStr extraction_model),
                     (''originalTranscription'', JStr ''please add a dark mode'')])]"
    by (simp add: demo_transcription demo_extraction[OF b j] obj_sets_def obj_set_def)
  have valid: "starts_with (file_type demo_file) ''audio/''" "\<not> maxSize < file_size demo_file"
    using demo_file_valid by (simp_all add: valid_upload_def)
  have fields: "file_name demo_file = ''field note 1.mp3''" "file_type demo_file = ''audio/mpeg''"
    "file_size demo_file = 4"
    by (simp_all add: demo_file_def file_size_def)
  have run: "upload_handler (Form (FileValue demo_file)) ?e = process_upload demo_file ?e"
    using valid by (simp add: upload_handler_def)
  have store: "snd (store_feature_requests
          (Some \<lparr>audio_files = Some [\<lparr>af_id = ''id-'', af_file_name = ''field note 1.mp3'', af_file_size = 4,
                                   af_file_type = ''audio/mpeg'', af_r2_key = None\<rparr>],
             feature_requests = Some [], faults = []\<rparr>)
          (fst (processAudioWithAI (file_bytes demo_file) (Some (demo_ai ?answer)))) ''id-'' demo_ids (Suc 0))
        = Some \<lparr>audio_files = Some [\<lparr>af_id = ''id-'', af_file_name = ''field note 1.mp3'', af_file_size = 4,
                                   af_file_type = ''audio/mpeg'', af_r2_key = None\<rparr>],
             feature_requests = Some [], faults = []\<rparr>"
    "fst (store_feature_requests
          (Some \<lparr>audio_files = Some [\<lparr>af_id = ''id-'', af_file_name = ''field note 1.mp3'', af_file_size = 4,
                                   af_file_type = ''audio/mpeg'', af_r2_key = None\<rparr>],
             feature_requests = Some [], faults = []\<rparr>)
          (fst (processAudioWithAI (file_bytes demo_file) (Some (demo_ai ?answer)))) ''id-'' demo_ids (Suc 0))
        = 2"
    unfolding ai
    by (simp_all add: store_feature_requests_def opt_prop_def run_statement_def Let_def
        placeholder_row_def or_null_def)
  have meta: "store_metadata (Some demo_store)
         \<lparr>af_id = ''id-'', af_file_name = ''field note 1.mp3'', af_file_size = 4,
          af_file_type = ''audio/mpeg'', af_r2_key = None\<rparr>
       = (True, Some \<lparr>audio_files = Some [\<lparr>af_id = ''id-'', af_file_name = ''field note 1.mp3'', af_file_size = 4,
                                   af_file_type = ''audio/mpeg'', af_r2_key = None\<rparr>],
             feature_requests = Some [], faults = []\<rparr>)"
    by (simp add: store_metadata_def demo_store_def run_statement_def)
  have rej: "apply_statement
        (InsertFeatureRequest (placeholder_row ''id-x'' ''id-'' (Val (JStr ''No feature requests.''))))
        \<lparr>audio_files = Some [], feature_requests = Some [], faults = []\<rparr>
     = None"
    by (simp add: placeholder_row_def)
  have ids: "demo_ids 0 = ''id-''"
    by (simp add: demo_ids_def)
  show ?thesis
    unfolding run
    using store meta rej
    by (simp add: process_upload_def Let_def demo_env_def fields store_audio_def ids)
qed

subsection \<open>The mock record\<close>

text \<open>
  Claim C10. When the transcription backend is absent or its call fails and the
  relational store works, the returned \<^verbatim>\<open>featureRequests\<close> holds exactly one
  record, with id \<^verbatim>\<open>mock-1\<close> and title \<^verbatim>\<open>[Mock] Feature Request Example\<close>;
  the title passes the filter, and exactly one row, named by that title, is
  added to \<^verbatim>\<open>feature_requests\<close>.
\<close>

theorem mock_record_is_persisted:
  assumes "valid_upload f" and "audio2features e = Some db" and "no_faults db"
    and "(AI e = None \<and> err = Error ''AI binding not available'')
         \<or> (\<exists>run. AI e = Some run \<and> run transcription_model (Audio (file_bytes f)) = Rejects err)"
  shows "opt_prop (opt_prop (opt_prop (body (fst (upload_handler (Form (FileValue f)) e))) ''aiFeatures'')
                   ''featureRequests'') ''requests'' = JArr [mock_record]
     \<and> opt_prop mock_record ''id'' = JStr ''mock-1''
     \<and> opt_prop mock_record ''title'' = JStr ''[Mock] Feature Request Example''
     \<and> actionable mock_record
     \<and> is_actionable mock_record = Inr True
     \<and> (\<exists>db'. audio2features (fst (snd (upload_handler (Form (FileValue f)) e))) = Some db'
           \<and> feature_requests db' =
               Some (rows_of (feature_requests db)
                     @ [bound_row (uuids e (Suc (drawn e))) (uuids e (drawn e)) Null mock_record]))
     \<and> fr_title (bound_row (uuids e (Suc (drawn e))) (uuids e (drawn e)) Null mock_record)
         = Val (JStr ''[Mock] Feature Request Example'')"
proof -
  have ai: "fst (processAudioWithAI (file_bytes f) (AI e)) = transcription_fallback err"
    using assms(4) by (auto simp: processAudioWithAI_def)
  have reqs: "opt_prop (opt_prop (fst (processAudioWithAI (file_bytes f) (AI e))) ''featureRequests'') ''requests''
           = JArr [mock_record]"
    by (simp add: ai transcription_fallback_def mock_feature_requests_def opt_prop_def)
  have summary: "or_null (opt_prop (opt_prop (fst (processAudioWithAI (file_bytes f) (AI e))) ''featureRequests'')
                   ''summary'') = Null"
    by (simp add: ai transcription_fallback_def mock_feature_requests_def opt_prop_def or_null_def)
  have recs: "list_all is_record [mock_record]"
    by (simp add: mock_record_is_record)
  have store: "\<exists>db'. audio2features (fst (snd (upload_handler (Form (FileValue f)) e))) = Some db'
           \<and> feature_requests db' =
               Some (rows_of (feature_requests db)
                     @ [bound_row (uuids e (Suc (drawn e))) (uuids e (drawn e)) Null mock_record])"
    using upload_store[OF assms(1,2,3) reqs recs]
    by (simp add: summary mock_record_actionable)
  have resp: "opt_prop (opt_prop (opt_prop (body (fst (upload_handler (Form (FileValue f)) e))) ''aiFeatures'')
                   ''featureRequests'') ''requests'' = JArr [mock_record]"
    using reqs by (simp add: upload_response[OF assms(1)] opt_prop_def)
  have fields: "opt_prop mock_record ''id'' = JStr ''mock-1''"
    "opt_prop mock_record ''title'' = JStr ''[Mock] Feature Request Example''"
    by (simp_all add: mock_record_def opt_prop_def)
  have title: "fr_title (bound_row (uuids e (Suc (drawn e))) (uuids e (drawn e)) Null mock_record)
         = Val (JStr ''[Mock] Feature Request Example'')"
    by (simp add: bound_row_def fields js_or_def)
  have code: "is_actionable mock_record = Inr True"
    by (simp add: is_actionable_record mock_record_is_record mock_record_actionable)
  show ?thesis
    using resp fields mock_record_actionable code store title by blast
qed

theorem mock_record_witness:
  "(\<exists>db'. audio2features (fst (snd (upload_handler (Form (FileValue demo_file))
            (demo_env None None (Some demo_store))))) = Some db'
      \<and> feature_requests db' = Some [bound_row ''id-x'' ''id-'' Null mock_record])
   \<and> fr_title (bound_row ''id-x'' ''id-'' Null mock_record) = Val (JStr ''[Mock] Feature Request Example'')"
proof -
  let ?e = "demo_env None None (Some demo_store)"
  have h2: "audio2features ?e = Some demo_store"
    by (simp add: demo_env_def)
  have h4: "(AI ?e = None \<and> Error ''AI binding not available'' = Error ''AI binding not available'')
         \<or> (\<exists>run. AI ?e = Some run \<and> run transcription_model (Audio (file_bytes demo_file))
               = Rejects (Error ''AI binding not available''))"
    by (simp add: demo_env_def)
  have ids: "uuids ?e (drawn ?e) = ''id-''" "uuids ?e (Suc (drawn ?e)) = ''id-x''"
    by (simp_all add: demo_env_def demo_ids_def)
  have old: "rows_of (feature_requests demo_store) = []"
    by (simp add: rows_of_def demo_store_def)
  show ?thesis
    using mock_record_is_persisted[OF demo_file_valid h2 demo_store_works h4]
    unfolding ids old by simp
qed

subsection \<open>Storage failures and the response\<close>

text \<open>
  Claim C9 says that a failing or absent store leaves the HTTP response
  unchanged. For the object store this is not so: \<^verbatim>\<open>audioInfo.r2Key\<close> is
  \<^verbatim>\<open>r2Stored ? r2Key : undefined\<close>, present when the put succeeded and absent
  otherwise.
\<close>

theorem storage_changes_response_counterexample:
  "opt_prop (opt_prop (body (fst (upload_handler (Form (FileValue demo_file))
       (demo_env None (Some demo_bucket) None)))) ''audioInfo'') ''r2Key''
     = JStr ''uploads/id--field_note_1.mp3''
   \<and> opt_prop (opt_prop (body (fst (upload_handler (Form (FileValue demo_file))
       (demo_env None None None)))) ''audioInfo'') ''r2Key''
     = JUndefined
   \<and> fst (upload_handler (Form (FileValue demo_file)) (demo_env None (Some demo_bucket) None))
     \<noteq> fst (upload_handler (Form (FileValue demo_file)) (demo_env None None None))"
proof -
  have a: "opt_prop (opt_prop (body (fst (upload_handler (Form (FileValue demo_file))
       (demo_env None (Some demo_bucket) None)))) ''audioInfo'') ''r2Key''
     = JStr ''uploads/id--field_note_1.mp3''"
    unfolding upload_response[OF demo_file_valid]
    by (simp add: demo_env_def demo_bucket_def audioInfo_def
        opt_prop_def r2Key_def demo_ids_def demo_file_def safeName_def safe_char_def)
  have b: "opt_prop (opt_prop (body (fst (upload_handler (Form (FileValue demo_file))
       (demo_env None None None)))) ''audioInfo'') ''r2Key''
     = JUndefined"
    unfolding upload_response[OF demo_file_valid]
    by (simp add: demo_env_def audioInfo_def opt_prop_def)
  from a b show ?thesis
    by (metis jsval.distinct(7))
qed

text \<open>
  Claim C9, amended. For every valid upload and whatever the two stores do, the
  handler answers 200 with \<^verbatim>\<open>success: true\<close> and the same AI results; the
  relational store has no influence on the response at all, and the object
  store only decides whether \<^verbatim>\<open>audioInfo.r2Key\<close> is present, every other
  field of \<^verbatim>\<open>audioInfo\<close> being the same.
\<close>

theorem storage_leaves_ai_results:
  assumes "valid_upload f"
  shows "fst (upload_handler (Form (FileValue f)) (e\<lparr>AUDIO_BUCKET := bucket, audio2features := db\<rparr>)) =
           \<lparr>status = 200,
            body = JObj [(''success'', JBool True),
                         (''audioInfo'', audioInfo f (uuids e (drawn e))
                            (case bucket of None \<Rightarrow> False | Some b \<Rightarrow> put_failure b = None)),
                         (''aiFeatures'', fst (processAudioWithAI (file_bytes f) (AI e))),
                         (''message'', JStr ''Audio processed successfully'')]\<rparr>
     \<and> fst (upload_handler (Form (FileValue f)) (e\<lparr>audio2features := db\<rparr>))
       = fst (upload_handler (Form (FileValue f)) (e\<lparr>audio2features := db'\<rparr>))
     \<and> (\<forall>k. k \<noteq> ''r2Key'' \<longrightarrow>
           opt_prop (audioInfo f fileId stored) k = opt_prop (audioInfo f fileId stored') k)
     \<and> opt_prop (audioInfo f fileId stored) ''r2Key''
       = (if stored then JStr (r2Key fileId (file_name f)) else JUndefined)"
  using assms by (simp add: upload_response audioInfo_def opt_prop_def)

theorem storage_leaves_ai_results_witness:
  "fst (upload_handler (Form (FileValue demo_file)) (demo_env None (Some demo_bucket) (Some broken_store)))
     = fst (upload_handler (Form (FileValue demo_file)) (demo_env None (Some demo_bucket) (Some demo_store)))
   \<and> status (fst (upload_handler (Form (FileValue demo_file)) (demo_env None None (Some broken_store)))) = 200
   \<and> opt_prop (body (fst (upload_handler (Form (FileValue demo_file)) (demo_env None None (Some broken_store)))))
        ''success'' = JBool True
   \<and> opt_prop (body (fst (upload_handler (Form (FileValue demo_file)) (demo_env None None (Some broken_store)))))
        ''aiFeatures''
     = opt_prop (body (fst (upload_handler (Form (FileValue demo_file))
          (demo_env None (Some demo_bucket) (Some demo_store))))) ''aiFeatures''
   \<and> audio2features (fst (snd (upload_handler (Form (FileValue demo_file))
        (demo_env None None (Some broken_store)))))
     = Some \<lparr>audio_files = None, feature_requests = None, faults = replicate 6 True\<rparr>"
proof -
  let ?e = "demo_env None None None"
  have e1: "demo_env None (Some demo_bucket) (Some broken_store)
            = ?e\<lparr>AUDIO_BUCKET := Some demo_bucket, audio2features := Some broken_store\<rparr>"
    and e2: "demo_env None (Some demo_bucket) (Some demo_store)
            = ?e\<lparr>AUDIO_BUCKET := Some demo_bucket, audio2features := Some demo_store\<rparr>"
    and e3: "demo_env None None (Some broken_store)
            = ?e\<lparr>AUDIO_BUCKET := None, audio2features := Some broken_store\<rparr>"
    by (simp_all add: demo_env_def)
  note a = storage_leaves_ai_results[OF demo_file_valid, where e = ?e and bucket = "Some demo_bucket"
      and db = "Some broken_store", THEN conjunct1]
  note b = storage_leaves_ai_results[OF demo_file_valid, where e = ?e and bucket = "Some demo_bucket"
      and db = "Some demo_store", THEN conjunct1]
  note c = storage_leaves_ai_results[OF demo_file_valid, where e = ?e and bucket = "None"
      and db = "Some broken_store", THEN conjunct1]
  have store: "audio2features (fst (snd (upload_handler (Form (FileValue demo_file))
        (demo_env None None (Some broken_store)))))
     = Some \<lparr>audio_files = None, feature_requests = None, faults = replicate 6 True\<rparr>"
    using demo_file_valid
    by (simp add: upload_handler_def valid_upload_def process_upload_def Let_def demo_env_def
        broken_store_def store_metadata_def run_statement_def store_feature_requests_def
        processAudioWithAI_def transcription_fallback_def mock_feature_requests_def opt_prop_def
        numeral_eq_Suc)
  show ?thesis
    using a b c store unfolding e1 e2 e3 by (simp add: opt_prop_def)
qed

end
